theory Spec2Isabelle
  imports Complex_Main "HOL-Library.AList"
begin

section \<open>JavaScript values as the guards see them\<close>

text \<open>
  The guards of \<^verbatim>\<open>guards.ts\<close> and \<^verbatim>\<open>queue.types.ts\<close> take a value of type
  \<^verbatim>\<open>unknown\<close> and inspect it with \<^verbatim>\<open>typeof\<close>, \<^verbatim>\<open>===\<close>, \<^verbatim>\<open>Array.isArray\<close>,
  \<^verbatim>\<open>instanceof Date\<close>, the \<^verbatim>\<open>in\<close> operator and property reads. A value is therefore
  modelled by its kind and its contents:
  \<^item> a number is NaN, an infinity or a finite value (the two zeros are one value here);
  \<^item> a string is a list of one-byte characters (code units above 255 are not
    represented);
  \<^item> an array is the list of its elements (no holes, no extra named properties);
  \<^item> a plain object is the association list of its own data properties, the first
    entry of a key being the property's value;
  \<^item> a Date is its time value, \<open>None\<close> for the NaN of an invalid Date;
  \<^item> a function is opaque.
  Accessor properties, proxies and properties inherited from a user-defined prototype
  are outside this model: a property read is a lookup in the own data properties.
\<close>

datatype jsnum = NaN | PosInfinity | NegInfinity | Finite rat

datatype jsval =
    JUndefined
  | JNull
  | JBool bool
  | JNum jsnum
  | JBigInt int
  | JStr string
  | JSymbol string
  | JFunc string
  | JDate "int option"
  | JArr "jsval list"
  | JObj "(string \<times> jsval) list"

text \<open>What a throwing operation throws.\<close>

datatype js_error = TypeError | RangeError

type_synonym 'a result = "js_error + 'a"

text \<open>Sequencing of operations that may throw, and the short-circuit \<^verbatim>\<open>&&\<close> and
  \<^verbatim>\<open>||\<close> on boolean operands: the right operand is evaluated, and may throw, only
  when the left one does not decide the result.\<close>

definition bindE :: "'a result \<Rightarrow> ('a \<Rightarrow> 'b result) \<Rightarrow> 'b result" where
  "bindE m f = (case m of Inl e \<Rightarrow> Inl e | Inr x \<Rightarrow> f x)"

definition andE :: "bool result \<Rightarrow> bool result \<Rightarrow> bool result" where
  "andE a b = (case a of Inl e \<Rightarrow> Inl e | Inr x \<Rightarrow> (if x then b else Inr False))"

definition orE :: "bool result \<Rightarrow> bool result \<Rightarrow> bool result" where
  "orE a b = (case a of Inl e \<Rightarrow> Inl e | Inr x \<Rightarrow> (if x then Inr True else b))"

fun typeof :: "jsval \<Rightarrow> string" where
  "typeof JUndefined = ''undefined''"
| "typeof JNull = ''object''"
| "typeof (JBool b) = ''boolean''"
| "typeof (JNum n) = ''number''"
| "typeof (JBigInt i) = ''bigint''"
| "typeof (JStr s) = ''string''"
| "typeof (JSymbol s) = ''symbol''"
| "typeof (JFunc f) = ''function''"
| "typeof (JDate t) = ''object''"
| "typeof (JArr xs) = ''object''"
| "typeof (JObj kvs) = ''object''"

text \<open>ToBoolean: the falsy values are \<^verbatim>\<open>undefined\<close>, \<^verbatim>\<open>null\<close>, \<^verbatim>\<open>false\<close>, zero, NaN,
  \<^verbatim>\<open>0n\<close> and the empty string.\<close>

fun truthy :: "jsval \<Rightarrow> bool" where
  "truthy JUndefined = False"
| "truthy JNull = False"
| "truthy (JBool b) = b"
| "truthy (JNum n) = (n \<noteq> NaN \<and> n \<noteq> Finite 0)"
| "truthy (JBigInt i) = (i \<noteq> 0)"
| "truthy (JStr s) = (s \<noteq> [])"
| "truthy (JSymbol s) = True"
| "truthy (JFunc f) = True"
| "truthy (JDate t) = True"
| "truthy (JArr xs) = True"
| "truthy (JObj kvs) = True"

fun isArray :: "jsval \<Rightarrow> bool" where
  "isArray (JArr xs) = True"
| "isArray v = False"

fun instanceofDate :: "jsval \<Rightarrow> bool" where
  "instanceofDate (JDate t) = True"
| "instanceofDate v = False"

text \<open>The value of a named property of a value that is not \<^verbatim>\<open>null\<close> or
  \<^verbatim>\<open>undefined\<close>. Only a plain object has named data properties here; none of the names
  the guards read is a member of a built-in prototype, so the read of a missing
  property is \<^verbatim>\<open>undefined\<close>.\<close>

fun read_prop :: "jsval \<Rightarrow> string \<Rightarrow> jsval" where
  "read_prop (JObj kvs) k = (case map_of kvs k of Some v \<Rightarrow> v | None \<Rightarrow> JUndefined)"
| "read_prop v k = JUndefined"

text \<open>The property read \<^verbatim>\<open>v.k\<close>: a TypeError on \<^verbatim>\<open>null\<close> and \<^verbatim>\<open>undefined\<close>.\<close>

definition get_prop :: "jsval \<Rightarrow> string \<Rightarrow> jsval result" where
  "get_prop v k = (if v = JNull \<or> v = JUndefined then Inl TypeError else Inr (read_prop v k))"

fun has_key :: "string \<Rightarrow> jsval \<Rightarrow> bool" where
  "has_key k (JObj kvs) = (k \<in> fst ` set kvs)"
| "has_key k v = False"

text \<open>The operator \<^verbatim>\<open>k in v\<close>: a TypeError when the right operand is not an object.\<close>

definition in_op :: "string \<Rightarrow> jsval \<Rightarrow> bool result" where
  "in_op k v =
     (if typeof v = ''function'' \<or> (typeof v = ''object'' \<and> v \<noteq> JNull)
      then Inr (has_key k v) else Inl TypeError)"

section \<open>The response envelope (\<^verbatim>\<open>src/guards.ts\<close>)\<close>

definition isApiSuccess :: "jsval \<Rightarrow> bool result" where
  "isApiSuccess response =
     bindE (get_prop response ''success'') (\<lambda>success. Inr (success = JBool True))"

definition isApiError :: "jsval \<Rightarrow> bool result" where
  "isApiError response =
     bindE (get_prop response ''success'') (\<lambda>success. Inr (success = JBool False))"

definition isApiResponse :: "jsval \<Rightarrow> bool result" where
  "isApiResponse v =
     (if \<not> truthy v \<or> typeof v \<noteq> ''object'' then Inr False
      else bindE (get_prop v ''success'') (\<lambda>success.
        if typeof success \<noteq> ''boolean'' then Inr False
        else if success = JBool True then in_op ''data'' v
        else if success = JBool False then
          bindE (get_prop v ''error'') (\<lambda>err.
            if \<not> truthy err \<or> typeof err \<noteq> ''object'' then Inr False
            else andE (bindE (get_prop err ''code'') (\<lambda>c. Inr (typeof c = ''string'')))
                      (bindE (get_prop err ''message'') (\<lambda>m. Inr (typeof m = ''string''))))
        else Inr False))"

definition hasErrorCode :: "jsval \<Rightarrow> string \<Rightarrow> bool result" where
  "hasErrorCode response code =
     bindE (get_prop response ''error'') (\<lambda>err.
       bindE (get_prop err ''code'') (\<lambda>c. Inr (c = JStr code)))"

text \<open>The object spread \<^verbatim>\<open>...(x && { k: x })\<close>: the property \<open>k\<close> when \<open>x\<close> is truthy,
  nothing when it is falsy (spreading a falsy primitive adds no property).\<close>

definition spread_if :: "string \<Rightarrow> jsval \<Rightarrow> (string \<times> jsval) list" where
  "spread_if k x = (if truthy x then [(k, x)] else [])"

text \<open>An omitted optional argument is \<^verbatim>\<open>undefined\<close>.\<close>

definition createSuccessResponse :: "jsval \<Rightarrow> jsval \<Rightarrow> jsval" where
  "createSuccessResponse data message =
     JObj ([(''success'', JBool True), (''data'', data)] @ spread_if ''message'' message)"

definition createErrorResponse :: "string \<Rightarrow> string \<Rightarrow> jsval \<Rightarrow> jsval" where
  "createErrorResponse code message details =
     JObj [(''success'', JBool False),
           (''error'', JObj ([(''code'', JStr code), (''message'', JStr message)]
                             @ spread_if ''details'' details))]"

section \<open>Scalar refinements (\<^verbatim>\<open>src/guards.ts\<close>)\<close>

text \<open>The elements of an array and the characters of a string, empty for any other
  value (the guards read them only after \<^verbatim>\<open>Array.isArray\<close> or a \<^verbatim>\<open>typeof\<close> test).\<close>

fun elements :: "jsval \<Rightarrow> jsval list" where
  "elements (JArr xs) = xs"
| "elements v = []"

fun chars_of :: "jsval \<Rightarrow> string" where
  "chars_of (JStr s) = s"
| "chars_of v = []"

fun time_value :: "jsval \<Rightarrow> int option" where
  "time_value (JDate t) = t"
| "time_value v = None"

text \<open>\<^verbatim>\<open>value instanceof Date && !isNaN(value.getTime())\<close>\<close>

definition isDate :: "jsval \<Rightarrow> bool result" where
  "isDate v = Inr (instanceofDate v \<and> time_value v \<noteq> None)"

text \<open>White space and line terminators of \<^verbatim>\<open>String.prototype.trim\<close> and of the
  regular expression class \<^verbatim>\<open>\s\<close>, among one-byte characters: TAB, LF, VT, FF, CR, the
  space and the no-break space.\<close>

definition js_space :: "char \<Rightarrow> bool" where
  "js_space c =
     (c \<in> set [CHR 0x09, CHR 0x0A, CHR 0x0B, CHR 0x0C, CHR 0x0D, CHR '' '', CHR 0xA0])"

definition js_trim :: "string \<Rightarrow> string" where
  "js_trim s = rev (dropWhile js_space (rev (dropWhile js_space s)))"

text \<open>The method call \<^verbatim>\<open>value.trim()\<close>: a TypeError when the receiver has no such method.\<close>

definition trim_call :: "jsval \<Rightarrow> string result" where
  "trim_call v = (if typeof v = ''string'' then Inr (js_trim (chars_of v)) else Inl TypeError)"

definition isNonEmptyString :: "jsval \<Rightarrow> bool result" where
  "isNonEmptyString v =
     andE (Inr (typeof v = ''string'')) (bindE (trim_call v) (\<lambda>t. Inr (length t > 0)))"

definition isNonEmptyArray :: "jsval \<Rightarrow> bool result" where
  "isNonEmptyArray v = Inr (isArray v \<and> length (elements v) > 0)"

text \<open>\<^verbatim>\<open>/^https?:\/\/.+/\<close>: the scheme, then at least one character, the first of which
  is not a line terminator (the dot of a regular expression does not match one).\<close>

definition starts_with :: "string \<Rightarrow> string \<Rightarrow> bool" where
  "starts_with p s = (take (length p) s = p)"

definition line_terminator :: "char \<Rightarrow> bool" where
  "line_terminator c = (c = CHR 0x0A \<or> c = CHR 0x0D)"

definition dot_plus :: "string \<Rightarrow> bool" where
  "dot_plus r = (case r of [] \<Rightarrow> False | c # cs \<Rightarrow> \<not> line_terminator c)"

definition urlPattern :: "string \<Rightarrow> bool" where
  "urlPattern s =
     ((starts_with ''http://'' s \<and> dot_plus (drop 7 s)) \<or>
      (starts_with ''https://'' s \<and> dot_plus (drop 8 s)))"

definition isValidUrl :: "jsval \<Rightarrow> bool result" where
  "isValidUrl v = (if typeof v \<noteq> ''string'' then Inr False else Inr (urlPattern (chars_of v)))"

text \<open>\<^verbatim>\<open>/^[^\s@]+@[^\s@]+\.[^\s@]+$/\<close>: a non-empty local part without white space or
  \<^verbatim>\<open>@\<close>, one \<^verbatim>\<open>@\<close>, and a rest without white space or \<^verbatim>\<open>@\<close> that has a dot which is
  neither its first nor its last character.\<close>

definition email_char :: "char \<Rightarrow> bool" where
  "email_char c = (\<not> js_space c \<and> c \<noteq> CHR ''@'')"

definition emailRegex :: "string \<Rightarrow> bool" where
  "emailRegex s =
     (let local = takeWhile email_char s; rest = dropWhile email_char s in
      local \<noteq> [] \<and>
      (case rest of
         [] \<Rightarrow> False
       | c # domain \<Rightarrow>
           c = CHR ''@'' \<and> list_all email_char domain \<and> CHR ''.'' \<in> set (butlast (tl domain))))"

definition isValidEmail :: "jsval \<Rightarrow> bool result" where
  "isValidEmail v = (if typeof v \<noteq> ''string'' then Inr False else Inr (emailRegex (chars_of v)))"

subsection \<open>Dates\<close>

text \<open>A time value is a whole number of milliseconds since the epoch, at most
  8.64e15 in absolute value; days are counted in the proleptic Gregorian calendar,
  in UTC.\<close>

definition msPerDay :: int where
  "msPerDay = 86400000"

definition time_clip :: "int \<Rightarrow> int option" where
  "time_clip t = (if \<bar>t\<bar> \<le> 8640000000000000 then Some t else None)"

text \<open>Year, month (1 to 12) and day of the month (from 1) of a day number, and back.\<close>

definition civil_from_days :: "int \<Rightarrow> int \<times> int \<times> int" where
  "civil_from_days z0 =
     (let z = z0 + 719468;
          era = z div 146097;
          doe = z mod 146097;
          yoe = (doe - doe div 1460 + doe div 36524 - doe div 146096) div 365;
          doy = doe - (365 * yoe + yoe div 4 - yoe div 100);
          mp = (5 * doy + 2) div 153;
          d = doy - (153 * mp + 2) div 5 + 1;
          m = (if mp < 10 then mp + 3 else mp - 9);
          y = yoe + era * 400 + (if m \<le> 2 then 1 else 0)
      in (y, m, d))"

definition days_from_civil :: "int \<Rightarrow> int \<Rightarrow> int \<Rightarrow> int" where
  "days_from_civil y0 m d =
     (let y = (if m \<le> 2 then y0 - 1 else y0);
          era = y div 400;
          yoe = y mod 400;
          doy = (153 * (if m > 2 then m - 3 else m + 9) + 2) div 5 + d - 1;
          doe = yoe * 365 + yoe div 4 - yoe div 100 + doy
      in era * 146097 + doe - 719468)"

definition leap_year :: "int \<Rightarrow> bool" where
  "leap_year y = (y mod 4 = 0 \<and> (y mod 100 \<noteq> 0 \<or> y mod 400 = 0))"

definition days_in_month :: "int \<Rightarrow> int \<Rightarrow> int" where
  "days_in_month y m =
     (if m = 2 then (if leap_year y then 29 else 28)
      else if m \<in> set [4, 6, 9, 11] then 30 else 31)"

text \<open>Decimal digits.\<close>

definition digit_char :: "nat \<Rightarrow> char" where
  "digit_char d = ''0123456789'' ! (d mod 10)"

fun pad :: "nat \<Rightarrow> nat \<Rightarrow> string" where
  "pad 0 n = []"
| "pad (Suc k) n = pad k (n div 10) @ [digit_char n]"

definition digit_val :: "char \<Rightarrow> nat option" where
  "digit_val c =
     (if c \<in> set ''0123456789''
      then Some (length (takeWhile (\<lambda>d. d \<noteq> c) ''0123456789'')) else None)"

fun number_of :: "nat \<Rightarrow> string \<Rightarrow> nat option" where
  "number_of acc [] = Some acc"
| "number_of acc (c # cs) =
     (case digit_val c of None \<Rightarrow> None | Some d \<Rightarrow> number_of (10 * acc + d) cs)"

text \<open>\<^verbatim>\<open>Date.prototype.toISOString\<close>: a RangeError on an invalid Date; otherwise
  \<^verbatim>\<open>YYYY-MM-DDTHH:mm:ss.sssZ\<close>, the year written with a sign and six digits when it
  is not between 0 and 9999.\<close>

definition iso_year :: "int \<Rightarrow> string" where
  "iso_year y =
     (if 0 \<le> y \<and> y \<le> 9999 then pad 4 (nat y)
      else (if y < 0 then ''-'' else ''+'') @ pad 6 (nat \<bar>y\<bar>))"

definition iso_string :: "int \<Rightarrow> string" where
  "iso_string t =
     (let (y, m, d) = civil_from_days (t div msPerDay);
          ms = t mod msPerDay
      in iso_year y @ ''-'' @ pad 2 (nat m) @ ''-'' @ pad 2 (nat d) @ ''T'' @
         pad 2 (nat (ms div 3600000)) @ '':'' @ pad 2 (nat (ms div 60000 mod 60)) @ '':'' @
         pad 2 (nat (ms div 1000 mod 60)) @ ''.'' @ pad 3 (nat (ms mod 1000)) @ ''Z'')"

definition toISOString :: "jsval \<Rightarrow> string result" where
  "toISOString v =
     (if instanceofDate v
      then (case time_value v of None \<Rightarrow> Inl RangeError | Some t \<Rightarrow> Inr (iso_string t))
      else Inl TypeError)"

text \<open>\<^verbatim>\<open>Date.parse\<close>. Every engine reads the format \<^verbatim>\<open>YYYY-MM-DDTHH:mm:ss.sssZ\<close> with
  fields in range as that instant. What it makes of any other string (the shorter
  forms of the format, offsets, an hour of 24, fields out of range, and the formats
  an engine accepts on its own account) is the parameter \<open>other\<close>.\<close>

definition parse_utc_instant :: "string \<Rightarrow> int option" where
  "parse_utc_instant s =
     (if length s = 24 \<and> s ! 4 = CHR ''-'' \<and> s ! 7 = CHR ''-'' \<and> s ! 10 = CHR ''T'' \<and>
         s ! 13 = CHR '':'' \<and> s ! 16 = CHR '':'' \<and> s ! 19 = CHR ''.'' \<and> s ! 23 = CHR ''Z''
      then
        (case (number_of 0 (take 4 s), number_of 0 (take 2 (drop 5 s)),
               number_of 0 (take 2 (drop 8 s)), number_of 0 (take 2 (drop 11 s)),
               number_of 0 (take 2 (drop 14 s)), number_of 0 (take 2 (drop 17 s)),
               number_of 0 (take 3 (drop 20 s))) of
           (Some y, Some mo, Some d, Some h, Some mi, Some sec, Some ms) \<Rightarrow>
             (if 1 \<le> mo \<and> mo \<le> 12 \<and> 1 \<le> d \<and> int d \<le> days_in_month (int y) (int mo) \<and>
                 h \<le> 23 \<and> mi \<le> 59 \<and> sec \<le> 59
              then Some (days_from_civil (int y) (int mo) (int d) * msPerDay +
                         int h * 3600000 + int mi * 60000 + int sec * 1000 + int ms)
              else None)
         | _ \<Rightarrow> None)
      else None)"

definition date_parse :: "(string \<Rightarrow> int option) \<Rightarrow> string \<Rightarrow> int option" where
  "date_parse other s = (case parse_utc_instant s of Some t \<Rightarrow> Some t | None \<Rightarrow> other s)"

text \<open>\<^verbatim>\<open>new Date(value)\<close> for a string argument.\<close>

definition new_Date :: "(string \<Rightarrow> int option) \<Rightarrow> string \<Rightarrow> jsval" where
  "new_Date other s = JDate (case date_parse other s of None \<Rightarrow> None | Some t \<Rightarrow> time_clip t)"

definition isISODateString :: "(string \<Rightarrow> int option) \<Rightarrow> jsval \<Rightarrow> bool result" where
  "isISODateString other v =
     (if typeof v \<noteq> ''string'' then Inr False
      else let date = new_Date other (chars_of v)
           in andE (Inr (time_value date \<noteq> None))
                   (bindE (toISOString date) (\<lambda>iso. Inr (JStr iso = v))))"

section \<open>Queue types (\<^verbatim>\<open>queue.types.ts\<close>)\<close>

text \<open>The string-literal union types, as the lists of their literals.\<close>

definition QueueStatus :: "string list" where
  "QueueStatus =
     [''pending'', ''processing'', ''success'', ''failed'', ''skipped'', ''filtered'']"

definition QueueItemType :: "string list" where
  "QueueItemType = [''job'', ''company'', ''scrape'']"

definition QueueSource :: "string list" where
  "QueueSource = [''user_submission'', ''automated_scan'', ''scraper'', ''webhook'', ''email'']"

text \<open>\<^verbatim>\<open>[...].includes(value)\<close> on an array of string literals: SameValueZero finds only
  a string with the same characters.\<close>

fun array_includes :: "string list \<Rightarrow> jsval \<Rightarrow> bool" where
  "array_includes lits (JStr s) = (s \<in> set lits)"
| "array_includes lits v = False"

text \<open>The parameter is declared a string, but \<^verbatim>\<open>isQueueItem\<close> passes whatever the
  property holds (\<^verbatim>\<open>item.type as string\<close>), so the argument is any value.\<close>

definition isQueueStatus :: "jsval \<Rightarrow> bool result" where
  "isQueueStatus status =
     Inr (array_includes
            [''pending'', ''processing'', ''success'', ''failed'', ''skipped'', ''filtered'']
            status)"

definition isQueueItemType :: "jsval \<Rightarrow> bool result" where
  "isQueueItemType type = Inr (array_includes [''job'', ''company'', ''scrape''] type)"

text \<open>An earlier copy of \<^verbatim>\<open>queue.types.ts\<close> is kept in the repository as well. It has
  neither the status \<^verbatim>\<open>filtered\<close> nor the item type \<^verbatim>\<open>scrape\<close>, in its types and in its
  guards alike; its two guards read as follows. (The third guard that the module of the
  entity guards imports from \<^verbatim>\<open>queue.types\<close>, \<^verbatim>\<open>isSourceTypeHint\<close>, is in neither
  copy.)\<close>

definition isQueueStatus_earlier :: "jsval \<Rightarrow> bool result" where
  "isQueueStatus_earlier status =
     Inr (array_includes [''pending'', ''processing'', ''success'', ''failed'', ''skipped'']
            status)"

definition isQueueItemType_earlier :: "jsval \<Rightarrow> bool result" where
  "isQueueItemType_earlier type = Inr (array_includes [''job'', ''company''] type)"

section \<open>Entity guards\<close>

subsection \<open>Helpers\<close>

definition isObject :: "jsval \<Rightarrow> bool" where
  "isObject v = (typeof v = ''object'' \<and> v \<noteq> JNull \<and> \<not> isArray v)"

definition isStringArray :: "jsval \<Rightarrow> bool" where
  "isStringArray v = (isArray v \<and> list_all (\<lambda>item. typeof item = ''string'') (elements v))"

text \<open>A chain \<^verbatim>\<open>c1 && c2 && ...\<close> and a chain \<^verbatim>\<open>c1 || c2 || ...\<close>.\<close>

fun allE :: "bool result list \<Rightarrow> bool result" where
  "allE [] = Inr True"
| "allE (c # cs) = andE c (allE cs)"

fun anyE :: "bool result list \<Rightarrow> bool result" where
  "anyE [] = Inr False"
| "anyE (c # cs) = orE c (anyE cs)"

text \<open>A test of the value read from one property.\<close>

definition check_prop :: "jsval \<Rightarrow> string \<Rightarrow> (jsval \<Rightarrow> bool result) \<Rightarrow> bool result" where
  "check_prop v k test = bindE (get_prop v k) test"

definition typeof_is :: "string \<Rightarrow> jsval \<Rightarrow> bool result" where
  "typeof_is t x = Inr (typeof x = t)"

definition null_or_string :: "jsval \<Rightarrow> bool result" where
  "null_or_string x = Inr (x = JNull \<or> typeof x = ''string'')"

definition string_array :: "jsval \<Rightarrow> bool result" where
  "string_array x = Inr (isStringArray x)"

definition equals_string :: "string \<Rightarrow> jsval \<Rightarrow> bool result" where
  "equals_string s x = Inr (x = JStr s)"

text \<open>The method call \<^verbatim>\<open>value.every(f)\<close>: a TypeError when the receiver is not an
  array.\<close>

definition every_call :: "(jsval \<Rightarrow> bool result) \<Rightarrow> jsval \<Rightarrow> bool result" where
  "every_call f v = (if isArray v then allE (map f (elements v)) else Inl TypeError)"

definition isDateLike :: "jsval \<Rightarrow> bool result" where
  "isDateLike v =
     (if instanceofDate v then Inr True
      else if \<not> isObject v then Inr False
      else allE [check_prop v ''seconds'' (typeof_is ''number''),
                 check_prop v ''nanoseconds'' (typeof_is ''number''),
                 check_prop v ''toDate'' (typeof_is ''function'')])"

subsection \<open>Queue\<close>

definition isQueueSource :: "jsval \<Rightarrow> bool result" where
  "isQueueSource v =
     Inr (typeof v = ''string'' \<and>
          array_includes [''user_submission'', ''automated_scan'', ''scraper'', ''webhook'', ''email'',
                    ''manual_submission'', ''user_request''] v)"

definition isQueueItem :: "jsval \<Rightarrow> bool result" where
  "isQueueItem v =
     (if \<not> isObject v then Inr False
      else allE [check_prop v ''type'' isQueueItemType,
                 check_prop v ''status'' isQueueStatus,
                 check_prop v ''url'' (typeof_is ''string''),
                 check_prop v ''company_name'' (typeof_is ''string''),
                 check_prop v ''company_id'' null_or_string,
                 check_prop v ''source'' isQueueSource,
                 check_prop v ''submitted_by'' null_or_string,
                 check_prop v ''retry_count'' (typeof_is ''number''),
                 check_prop v ''max_retries'' (typeof_is ''number''),
                 check_prop v ''created_at'' isDateLike,
                 check_prop v ''updated_at'' isDateLike])"

definition isStopList :: "jsval \<Rightarrow> bool result" where
  "isStopList v =
     (if \<not> isObject v then Inr False
      else allE [check_prop v ''excludedCompanies'' string_array,
                 check_prop v ''excludedKeywords'' string_array,
                 check_prop v ''excludedDomains'' string_array])"

definition isQueueSettings :: "jsval \<Rightarrow> bool result" where
  "isQueueSettings v =
     (if \<not> isObject v then Inr False
      else allE [check_prop v ''maxRetries'' (typeof_is ''number''),
                 check_prop v ''retryDelaySeconds'' (typeof_is ''number''),
                 check_prop v ''processingTimeout'' (typeof_is ''number'')])"

definition isAIProvider :: "jsval \<Rightarrow> bool result" where
  "isAIProvider v = Inr (typeof v = ''string'' \<and> array_includes [''claude'', ''openai'', ''gemini''] v)"

definition isAISettings :: "jsval \<Rightarrow> bool result" where
  "isAISettings v =
     (if \<not> isObject v then Inr False
      else allE [check_prop v ''provider'' isAIProvider,
                 check_prop v ''model'' (typeof_is ''string''),
                 check_prop v ''minMatchScore'' (typeof_is ''number''),
                 check_prop v ''costBudgetDaily'' (typeof_is ''number'')])"

subsection \<open>Jobs\<close>

definition isExperienceHighlight :: "jsval \<Rightarrow> bool result" where
  "isExperienceHighlight v =
     (if \<not> isObject v then Inr False
      else allE [check_prop v ''company'' (typeof_is ''string''),
                 check_prop v ''title'' (typeof_is ''string''),
                 check_prop v ''pointsToEmphasize'' string_array])"

definition isProjectRecommendation :: "jsval \<Rightarrow> bool result" where
  "isProjectRecommendation v =
     (if \<not> isObject v then Inr False
      else allE [check_prop v ''name'' (typeof_is ''string''),
                 check_prop v ''whyRelevant'' (typeof_is ''string''),
                 check_prop v ''pointsToHighlight'' string_array])"

definition isGapMitigation :: "jsval \<Rightarrow> bool result" where
  "isGapMitigation v =
     (if \<not> isObject v then Inr False
      else allE [check_prop v ''missingSkill'' (typeof_is ''string''),
                 check_prop v ''mitigationStrategy'' (typeof_is ''string''),
                 check_prop v ''coverLetterPoint'' (typeof_is ''string'')])"

definition isResumeIntakeData :: "jsval \<Rightarrow> bool result" where
  "isResumeIntakeData v =
     (if \<not> isObject v then Inr False
      else allE [check_prop v ''jobId'' (typeof_is ''string''),
                 check_prop v ''jobTitle'' (typeof_is ''string''),
                 check_prop v ''company'' (typeof_is ''string''),
                 check_prop v ''targetSummary'' (typeof_is ''string''),
                 check_prop v ''skillsPriority'' string_array,
                 check_prop v ''experienceHighlights'' (\<lambda>x. Inr (isArray x)),
                 check_prop v ''experienceHighlights'' (every_call isExperienceHighlight),
                 check_prop v ''projectsToInclude'' (\<lambda>x. Inr (isArray x)),
                 check_prop v ''projectsToInclude'' (every_call isProjectRecommendation),
                 check_prop v ''achievementAngles'' string_array,
                 check_prop v ''atsKeywords'' string_array])"

definition isJobListing :: "jsval \<Rightarrow> bool result" where
  "isJobListing v =
     (if \<not> isObject v then Inr False
      else allE [check_prop v ''title'' (typeof_is ''string''),
                 check_prop v ''company'' (typeof_is ''string''),
                 check_prop v ''companyWebsite'' (typeof_is ''string''),
                 check_prop v ''location'' (typeof_is ''string''),
                 check_prop v ''description'' (typeof_is ''string''),
                 check_prop v ''url'' (typeof_is ''string'')])"

definition isJobMatch :: "jsval \<Rightarrow> bool result" where
  "isJobMatch v =
     (if \<not> isObject v then Inr False
      else allE [check_prop v ''url'' (typeof_is ''string''),
                 check_prop v ''companyName'' (typeof_is ''string''),
                 check_prop v ''jobTitle'' (typeof_is ''string''),
                 check_prop v ''jobDescription'' (typeof_is ''string''),
                 check_prop v ''matchScore'' (typeof_is ''number''),
                 check_prop v ''matchedSkills'' string_array,
                 check_prop v ''missingSkills'' string_array,
                 check_prop v ''matchReasons'' string_array,
                 check_prop v ''keyStrengths'' string_array,
                 check_prop v ''potentialConcerns'' string_array,
                 check_prop v ''experienceMatch'' (typeof_is ''number''),
                 anyE [check_prop v ''applicationPriority'' (equals_string ''High''),
                       check_prop v ''applicationPriority'' (equals_string ''Medium''),
                       check_prop v ''applicationPriority'' (equals_string ''Low'')],
                 check_prop v ''customizationRecommendations'' string_array,
                 check_prop v ''analyzedAt'' isDateLike,
                 check_prop v ''createdAt'' isDateLike,
                 check_prop v ''submittedBy'' null_or_string,
                 check_prop v ''queueItemId'' (typeof_is ''string'')])"

definition isCompany :: "jsval \<Rightarrow> bool result" where
  "isCompany v =
     (if \<not> isObject v then Inr False
      else allE [check_prop v ''name'' (typeof_is ''string''),
                 check_prop v ''website'' (typeof_is ''string'')])"

subsection \<open>Content items\<close>

definition isContentItemType :: "jsval \<Rightarrow> bool result" where
  "isContentItemType v =
     Inr (typeof v = ''string'' \<and>
          array_includes [''company'', ''project'', ''skill-group'', ''education'', ''profile-section'',
                    ''accomplishment''] v)"

definition isContentItemVisibility :: "jsval \<Rightarrow> bool result" where
  "isContentItemVisibility v =
     Inr (typeof v = ''string'' \<and> array_includes [''published'', ''draft'', ''archived''] v)"

definition hasBaseContentItemFields :: "jsval \<Rightarrow> bool result" where
  "hasBaseContentItemFields v =
     allE [check_prop v ''id'' (typeof_is ''string''),
           check_prop v ''type'' isContentItemType,
           check_prop v ''userId'' (typeof_is ''string''),
           check_prop v ''parentId'' null_or_string,
           check_prop v ''order'' (typeof_is ''number''),
           check_prop v ''createdAt'' isDateLike,
           check_prop v ''updatedAt'' isDateLike,
           check_prop v ''createdBy'' (typeof_is ''string''),
           check_prop v ''updatedBy'' (typeof_is ''string'')]"

text \<open>The shape the six variant guards share: \<^verbatim>\<open>isObject\<close>, the base fields, then the
  variant's own tests.\<close>

definition variant_guard :: "jsval \<Rightarrow> bool result list \<Rightarrow> bool result" where
  "variant_guard v tests =
     (if \<not> isObject v then Inr False
      else bindE (hasBaseContentItemFields v) (\<lambda>base.
        if \<not> base then Inr False else allE tests))"

definition isCompanyItem :: "jsval \<Rightarrow> bool result" where
  "isCompanyItem v =
     variant_guard v [check_prop v ''type'' (equals_string ''company''),
                      check_prop v ''company'' (typeof_is ''string''),
                      check_prop v ''startDate'' (typeof_is ''string'')]"

definition isProjectItem :: "jsval \<Rightarrow> bool result" where
  "isProjectItem v =
     variant_guard v [check_prop v ''type'' (equals_string ''project''),
                      check_prop v ''name'' (typeof_is ''string''),
                      check_prop v ''description'' (typeof_is ''string'')]"

definition isSkillGroupItem :: "jsval \<Rightarrow> bool result" where
  "isSkillGroupItem v =
     variant_guard v [check_prop v ''type'' (equals_string ''skill-group''),
                      check_prop v ''category'' (typeof_is ''string''),
                      check_prop v ''skills'' string_array]"

definition isEducationItem :: "jsval \<Rightarrow> bool result" where
  "isEducationItem v =
     variant_guard v [check_prop v ''type'' (equals_string ''education''),
                      check_prop v ''institution'' (typeof_is ''string'')]"

definition isProfileSectionItem :: "jsval \<Rightarrow> bool result" where
  "isProfileSectionItem v =
     variant_guard v [check_prop v ''type'' (equals_string ''profile-section''),
                      check_prop v ''heading'' (typeof_is ''string''),
                      check_prop v ''content'' (typeof_is ''string'')]"

definition isAccomplishmentItem :: "jsval \<Rightarrow> bool result" where
  "isAccomplishmentItem v =
     variant_guard v [check_prop v ''type'' (equals_string ''accomplishment''),
                      check_prop v ''description'' (typeof_is ''string'')]"

definition isContentItem :: "jsval \<Rightarrow> bool result" where
  "isContentItem v =
     anyE [isCompanyItem v, isProjectItem v, isSkillGroupItem v, isEducationItem v,
           isProfileSectionItem v, isAccomplishmentItem v]"

section \<open>Auxiliary definitions for the statements\<close>

text \<open>The optional fields of the interface \<^verbatim>\<open>QueueItem\<close>.\<close>

definition QueueItem_optional :: "string list" where
  "QueueItem_optional =
     [''id'', ''result_message'', ''error_details'', ''processed_at'', ''completed_at'']"

text \<open>The six variant guards, in the order \<^verbatim>\<open>isContentItem\<close> tries them.\<close>

definition variant_guards :: "(jsval \<Rightarrow> bool result) list" where
  "variant_guards =
     [isCompanyItem, isProjectItem, isSkillGroupItem, isEducationItem, isProfileSectionItem,
      isAccomplishmentItem]"

text \<open>The literal each of them compares \<^verbatim>\<open>item.type\<close> with, in the same order.\<close>

definition variant_literals :: "string list" where
  "variant_literals =
     [''company'', ''project'', ''skill-group'', ''education'', ''profile-section'',
      ''accomplishment'']"

text \<open>The exported guards whose parameter has the type \<^verbatim>\<open>unknown\<close>, with the two of
  \<^verbatim>\<open>queue.types.ts\<close>, whose parameter is a string, in three lists: the guards of
  objects, the guards of strings, and the rest.\<close>

definition entity_guards :: "(jsval \<Rightarrow> bool result) list" where
  "entity_guards =
     [isQueueItem, isStopList, isQueueSettings, isAISettings, isExperienceHighlight,
      isProjectRecommendation, isGapMitigation, isResumeIntakeData, isJobListing, isJobMatch,
      isCompany, isCompanyItem, isProjectItem, isSkillGroupItem, isEducationItem,
      isProfileSectionItem, isAccomplishmentItem, isContentItem]"

definition string_guards :: "(string \<Rightarrow> int option) \<Rightarrow> (jsval \<Rightarrow> bool result) list" where
  "string_guards other =
     [isISODateString other, isNonEmptyString, isValidUrl, isValidEmail, isQueueStatus,
      isQueueItemType, isQueueSource, isAIProvider, isContentItemType, isContentItemVisibility]"

definition other_guards :: "(jsval \<Rightarrow> bool result) list" where
  "other_guards = [isApiResponse, isDate, isNonEmptyArray]"

text \<open>An object whose two timestamp fields \<open>k1\<close> and \<open>k2\<close> are invalid Dates.\<close>

definition invalid_dates :: "string \<Rightarrow> string \<Rightarrow> (string \<times> jsval) list \<Rightarrow> jsval" where
  "invalid_dates k1 k2 kvs = JObj (AList.update k1 (JDate None) (AList.update k2 (JDate None) kvs))"

text \<open>Sample values: the base fields of a content item with a given discriminator
  (one timestamp a Date, the other a Firestore Timestamp), and a queue item.\<close>

definition sample_timestamp :: jsval where
  "sample_timestamp =
     JObj [(''seconds'', JNum (Finite 1700000000)), (''nanoseconds'', JNum (Finite 0)),
           (''toDate'', JFunc ''toDate'')]"

definition sample_base :: "string \<Rightarrow> (string \<times> jsval) list" where
  "sample_base discriminator =
     [(''id'', JStr ''item-1''), (''type'', JStr discriminator), (''userId'', JStr ''user-1''),
      (''parentId'', JNull), (''order'', JNum (Finite 0)), (''createdAt'', JDate (Some 0)),
      (''updatedAt'', sample_timestamp), (''createdBy'', JStr ''a@b.c''),
      (''updatedBy'', JStr ''a@b.c'')]"

definition sample_queue_item :: "(string \<times> jsval) list" where
  "sample_queue_item =
     [(''type'', JStr ''job''), (''status'', JStr ''pending''),
      (''url'', JStr ''https://example.com/job''), (''company_name'', JStr ''Acme''),
      (''company_id'', JNull), (''source'', JStr ''scraper''), (''submitted_by'', JNull),
      (''retry_count'', JNum (Finite 0)), (''max_retries'', JNum (Finite 3)),
      (''created_at'', JDate (Some 0)), (''updated_at'', sample_timestamp)]"

definition sample_job_match :: "(string \<times> jsval) list" where
  "sample_job_match =
     [(''url'', JStr ''https://example.com/job''), (''companyName'', JStr ''Acme''),
      (''jobTitle'', JStr ''Engineer''), (''jobDescription'', JStr ''Build''),
      (''matchScore'', JNum (Finite 87)), (''matchedSkills'', JArr [JStr ''HOL'']),
      (''missingSkills'', JArr []), (''matchReasons'', JArr [JStr ''fit'']),
      (''keyStrengths'', JArr []), (''potentialConcerns'', JArr []),
      (''experienceMatch'', JNum (Finite 70)), (''applicationPriority'', JStr ''Medium''),
      (''customizationRecommendations'', JArr []), (''analyzedAt'', sample_timestamp),
      (''createdAt'', JDate (Some 0)), (''submittedBy'', JNull),
      (''queueItemId'', JStr ''q-1'')]"

text \<open>One content item of each variant, in the order of \<open>variant_guards\<close>.\<close>

definition sample_content_items :: "(string \<times> jsval) list list" where
  "sample_content_items =
     [sample_base ''company'' @ [(''company'', JStr ''Acme''), (''startDate'', JStr ''2020-01'')],
      sample_base ''project'' @ [(''name'', JStr ''n''), (''description'', JStr ''d'')],
      sample_base ''skill-group'' @
        [(''category'', JStr ''provers''), (''skills'', JArr [JStr ''HOL''])],
      sample_base ''education'' @ [(''institution'', JStr ''i'')],
      sample_base ''profile-section'' @ [(''heading'', JStr ''h''), (''content'', JStr ''c'')],
      sample_base ''accomplishment'' @ [(''description'', JStr ''d'')]]"

text \<open>A non-null object in the sense of \<^verbatim>\<open>v && typeof v === "object"\<close>: a plain
  object, an array or a Date.\<close>

definition nonnull_object :: "jsval \<Rightarrow> bool" where
  "nonnull_object v = (typeof v = ''object'' \<and> v \<noteq> JNull)"

text \<open>What \<^verbatim>\<open>isDateLike\<close> returns.\<close>

definition date_like :: "jsval \<Rightarrow> bool" where
  "date_like v =
     (instanceofDate v \<or>
      (isObject v \<and> typeof (read_prop v ''seconds'') = ''number'' \<and>
       typeof (read_prop v ''nanoseconds'') = ''number'' \<and>
       typeof (read_prop v ''toDate'') = ''function''))"

section \<open>Basic facts\<close>

lemma bindE_Inr [simp]: "bindE (Inr x) f = f x"
  by (simp add: bindE_def)

lemma bindE_Inl [simp]: "bindE (Inl e) f = Inl e"
  by (simp add: bindE_def)

lemma andE_Inr [simp]: "andE (Inr a) (Inr b) = Inr (a \<and> b)"
  by (simp add: andE_def)

lemma andE_False [simp]: "andE (Inr False) b = Inr False"
  by (simp add: andE_def)

lemma andE_True [simp]: "andE (Inr True) b = b"
  by (simp add: andE_def)

lemma orE_Inr [simp]: "orE (Inr a) (Inr b) = Inr (a \<or> b)"
  by (simp add: orE_def)

lemma andE_eq_True: "andE a b = Inr True \<longleftrightarrow> a = Inr True \<and> b = Inr True"
  by (auto simp add: andE_def split: sum.splits)

lemma allE_eq_True: "allE cs = Inr True \<longleftrightarrow> list_all (\<lambda>c. c = Inr True) cs"
  by (induction cs) (simp_all add: andE_eq_True)

lemma andE_returns: "\<exists>x. a = Inr x \<Longrightarrow> \<exists>y. b = Inr y \<Longrightarrow> \<exists>z. andE a b = Inr z"
  by auto

lemma orE_returns: "\<exists>x. a = Inr x \<Longrightarrow> \<exists>y. b = Inr y \<Longrightarrow> \<exists>z. orE a b = Inr z"
  by auto

lemma allE_returns: "list_all (\<lambda>c. \<exists>b. c = Inr b) cs \<Longrightarrow> \<exists>b. allE cs = Inr b"
  by (induction cs) (auto simp del: andE_Inr intro: andE_returns)

lemma anyE_returns: "list_all (\<lambda>c. \<exists>b. c = Inr b) cs \<Longrightarrow> \<exists>b. anyE cs = Inr b"
  by (induction cs) (auto simp del: orE_Inr intro: orE_returns)

lemma anyE_eq_False: "anyE cs = Inr False \<longleftrightarrow> list_all (\<lambda>c. c = Inr False) cs"
  by (induction cs) (auto simp add: orE_def split: sum.splits)

lemma returns_not_True: "\<exists>b. r = Inr b \<Longrightarrow> r \<noteq> Inr True \<Longrightarrow> r = Inr (False::bool)"
  by auto

lemma typeof_boolean_iff: "typeof v = ''boolean'' \<longleftrightarrow> (\<exists>b. v = JBool b)"
  by (cases v) simp_all

lemma typeof_string_iff: "typeof v = ''string'' \<longleftrightarrow> (\<exists>s. v = JStr s)"
  by (cases v) simp_all

lemma isObject_iff: "isObject v \<longleftrightarrow> (\<exists>t. v = JDate t) \<or> (\<exists>kvs. v = JObj kvs)"
  by (cases v) (simp_all add: isObject_def)

lemma isObject_JObj [simp]: "isObject (JObj kvs)"
  by (simp add: isObject_def)

lemma nonnull_object_JObj [simp]: "nonnull_object (JObj kvs)"
  by (simp add: nonnull_object_def)

lemma nonnull_object_truthy: "nonnull_object v \<longleftrightarrow> truthy v \<and> typeof v = ''object''"
  by (cases v) (simp_all add: nonnull_object_def)

lemma get_prop_nonnull_object: "nonnull_object v \<Longrightarrow> get_prop v k = Inr (read_prop v k)"
  by (cases v) (simp_all add: nonnull_object_def get_prop_def)

lemma in_op_nonnull_object: "nonnull_object v \<Longrightarrow> in_op k v = Inr (has_key k v)"
  by (simp add: nonnull_object_def in_op_def)

lemma get_prop_object: "isObject v \<Longrightarrow> get_prop v k = Inr (read_prop v k)"
  by (auto simp add: isObject_iff get_prop_def)

lemma check_prop_object: "isObject v \<Longrightarrow> check_prop v k test = test (read_prop v k)"
  by (simp add: check_prop_def get_prop_object)

lemma isDateLike_eq: "isDateLike v = Inr (date_like v)"
  by (cases "isObject v")
    (auto simp add: isDateLike_def date_like_def check_prop_object typeof_is_def)

lemmas tests_defs = typeof_is_def null_or_string_def string_array_def equals_string_def
  isQueueStatus_def isQueueItemType_def isQueueSource_def isAIProvider_def
  isContentItemType_def isContentItemVisibility_def isDateLike_eq

section \<open>The response envelope\<close>

lemma isApiResponse_not_object: "\<not> nonnull_object v \<Longrightarrow> isApiResponse v = Inr False"
  by (auto simp add: isApiResponse_def nonnull_object_truthy)

lemma isApiResponse_object:
  "nonnull_object v \<Longrightarrow> isApiResponse v =
     (if read_prop v ''success'' = JBool True then Inr (has_key ''data'' v)
      else if read_prop v ''success'' = JBool False then
        (if nonnull_object (read_prop v ''error'') then
           Inr (typeof (read_prop (read_prop v ''error'') ''code'') = ''string'' \<and>
                typeof (read_prop (read_prop v ''error'') ''message'') = ''string'')
         else Inr False)
      else Inr False)"
  by (auto simp add: isApiResponse_def nonnull_object_truthy get_prop_nonnull_object
      in_op_nonnull_object typeof_boolean_iff)

lemma isApiResponse_eq:
  "isApiResponse v =
     Inr (nonnull_object v \<and>
          (read_prop v ''success'' = JBool True \<and> has_key ''data'' v \<or>
           read_prop v ''success'' = JBool False \<and> nonnull_object (read_prop v ''error'') \<and>
             typeof (read_prop (read_prop v ''error'') ''code'') = ''string'' \<and>
             typeof (read_prop (read_prop v ''error'') ''message'') = ''string''))"
  by (cases "nonnull_object v") (auto simp add: isApiResponse_not_object isApiResponse_object)

text \<open>
  Claim C1. For every value \<open>v\<close>, \<^verbatim>\<open>isApiResponse(v)\<close> returns, and it returns true exactly
  when \<open>v\<close> is a non-null object whose \<^verbatim>\<open>success\<close> property is a boolean \<open>b\<close> and: when
  \<open>b\<close> is true, \<open>v\<close> has the key \<^verbatim>\<open>data\<close> (its value is not looked at); when \<open>b\<close> is
  false, the \<^verbatim>\<open>error\<close> property is a non-null object whose \<^verbatim>\<open>code\<close> and \<^verbatim>\<open>message\<close> are
  strings. The five examples of the specification evaluate as it says.
\<close>

theorem isApiResponse_spec:
  "isApiResponse v =
     Inr (nonnull_object v \<and>
          (\<exists>b. read_prop v ''success'' = JBool b \<and>
               (if b then has_key ''data'' v
                else nonnull_object (read_prop v ''error'') \<and>
                     typeof (read_prop (read_prop v ''error'') ''code'') = ''string'' \<and>
                     typeof (read_prop (read_prop v ''error'') ''message'') = ''string''))) \<and>
   isApiResponse (JObj [(''success'', JBool True), (''data'', JObj [])]) = Inr True \<and>
   isApiResponse (JObj [(''success'', JBool True)]) = Inr False \<and>
   isApiResponse (JObj [(''success'', JBool False),
                        (''error'', JObj [(''code'', JStr ''X''), (''message'', JStr ''m'')])])
     = Inr True \<and>
   isApiResponse (JObj [(''success'', JBool False), (''error'', JObj [(''code'', JStr ''X'')])])
     = Inr False \<and>
   isApiResponse (JObj []) = Inr False"
proof -
  have ex: "(\<exists>b. x = JBool b \<and> (if b then P else Q)) \<longleftrightarrow>
            (x = JBool True \<and> P \<or> x = JBool False \<and> Q)" for x P Q
    by (metis (full_types))
  show ?thesis
    unfolding ex by (simp add: isApiResponse_eq)
qed

theorem isApiResponse_spec_witness:
  "isApiResponse (JArr [JBool True]) = Inr False \<and>
   isApiResponse (JObj [(''data'', JNull), (''success'', JBool True), (''extra'', JNum NaN)])
     = Inr True"
  using isApiResponse_spec [of "JArr [JBool True]", THEN conjunct1]
    isApiResponse_spec
      [of "JObj [(''data'', JNull), (''success'', JBool True), (''extra'', JNum NaN)]",
        THEN conjunct1]
  by (auto simp add: nonnull_object_def)

text \<open>
  Claim C2. Whatever the payload and the optional message, the validator accepts what
  \<^verbatim>\<open>createSuccessResponse\<close> builds; whatever the code and message strings and the
  optional details, it accepts what \<^verbatim>\<open>createErrorResponse\<close> builds. An omitted optional
  argument is the value \<^verbatim>\<open>undefined\<close>.
\<close>

theorem constructors_pass_isApiResponse:
  "isApiResponse (createSuccessResponse data message) = Inr True \<and>
   isApiResponse (createErrorResponse code msg details) = Inr True"
  by (simp add: isApiResponse_eq createSuccessResponse_def createErrorResponse_def)

theorem constructors_pass_isApiResponse_witness:
  "isApiResponse (JObj [(''success'', JBool True), (''data'', JUndefined)]) = Inr True \<and>
   isApiResponse (JObj [(''success'', JBool True), (''data'', JNum (Finite 3)),
                        (''message'', JStr ''ok'')]) = Inr True \<and>
   isApiResponse (JObj [(''success'', JBool False),
                        (''error'', JObj [(''code'', JStr ''NOT_FOUND''), (''message'', JStr [])])])
     = Inr True"
  using constructors_pass_isApiResponse [of JUndefined JUndefined "''NOT_FOUND''" "[]" JUndefined]
    constructors_pass_isApiResponse [of "JNum (Finite 3)" "JStr ''ok''" "''NOT_FOUND''" "[]" JNull]
  by (simp add: createSuccessResponse_def createErrorResponse_def spread_if_def)

section \<open>Enumeration guards\<close>

text \<open>
  Claim C3. For every string \<open>s\<close>, \<^verbatim>\<open>isQueueStatus(s)\<close> is true exactly when \<open>s\<close> is one
  of \<^verbatim>\<open>pending\<close>, \<^verbatim>\<open>processing\<close>, \<^verbatim>\<open>success\<close>, \<^verbatim>\<open>failed\<close>, \<^verbatim>\<open>skipped\<close>, \<^verbatim>\<open>filtered\<close>;
  for every string \<open>t\<close>, \<^verbatim>\<open>isQueueItemType(t)\<close> is true exactly when \<open>t\<close> is one of
  \<^verbatim>\<open>job\<close>, \<^verbatim>\<open>company\<close>, \<^verbatim>\<open>scrape\<close>. These are the literals of the types \<^verbatim>\<open>QueueStatus\<close>
  and \<^verbatim>\<open>QueueItemType\<close>.
\<close>

theorem queue_enum_guards:
  "isQueueStatus (JStr s) =
     Inr (s \<in> {''pending'', ''processing'', ''success'', ''failed'', ''skipped'', ''filtered''}) \<and>
   isQueueItemType (JStr t) = Inr (t \<in> {''job'', ''company'', ''scrape''}) \<and>
   isQueueStatus (JStr s) = Inr (s \<in> set QueueStatus) \<and>
   isQueueItemType (JStr t) = Inr (t \<in> set QueueItemType)"
  by (simp add: isQueueStatus_def isQueueItemType_def QueueStatus_def QueueItemType_def)

theorem queue_enum_guards_witness:
  "isQueueStatus (JStr ''filtered'') = Inr True \<and> isQueueItemType (JStr ''scrape'') = Inr True \<and>
   isQueueStatus (JStr ''skipped'') = Inr True \<and> isQueueItemType (JStr ''company'') = Inr True \<and>
   isQueueStatus (JStr ''archived'') = Inr False \<and> isQueueItemType (JStr ''Job'') = Inr False"
  using queue_enum_guards [of "''filtered''" "''scrape''"]
    queue_enum_guards [of "''skipped''" "''company''"]
    queue_enum_guards [of "''archived''" "''Job''"]
  by simp

text \<open>
  The earlier copy of \<^verbatim>\<open>queue.types.ts\<close>: its \<^verbatim>\<open>isQueueStatus\<close> accepts the five statuses
  other than \<^verbatim>\<open>filtered\<close> and its \<^verbatim>\<open>isQueueItemType\<close> accepts \<^verbatim>\<open>job\<close> and \<^verbatim>\<open>company\<close>
  only.
\<close>

theorem earlier_queue_enum_guards:
  "isQueueStatus_earlier (JStr s) =
     Inr (s \<in> {''pending'', ''processing'', ''success'', ''failed'', ''skipped''}) \<and>
   isQueueItemType_earlier (JStr t) = Inr (t \<in> {''job'', ''company''})"
  by (simp add: isQueueStatus_earlier_def isQueueItemType_earlier_def)

lemma isQueueSource_eq:
  "isQueueSource v =
     Inr (\<exists>s. v = JStr s \<and>
              (s \<in> set QueueSource \<or> s = ''manual_submission'' \<or> s = ''user_request''))"
  by (cases v) (auto simp add: isQueueSource_def QueueSource_def)

text \<open>
  Claim C4 says that \<^verbatim>\<open>isQueueSource\<close> accepts the five literals of the type
  \<^verbatim>\<open>QueueSource\<close> and no other string. The guard also accepts \<^verbatim>\<open>"manual_submission"\<close> and
  \<^verbatim>\<open>"user_request"\<close>, which the type does not declare.
\<close>

theorem isQueueSource_accepts_undeclared:
  "isQueueSource (JStr ''manual_submission'') = Inr True \<and>
   ''manual_submission'' \<notin> set QueueSource \<and>
   isQueueSource (JStr ''user_request'') = Inr True \<and>
   ''user_request'' \<notin> set QueueSource"
  by (simp add: isQueueSource_def QueueSource_def)

section \<open>Content items\<close>

lemma hasBase_returns: "isObject v \<Longrightarrow> \<exists>b. hasBaseContentItemFields v = Inr b"
  by (auto simp add: hasBaseContentItemFields_def check_prop_object tests_defs)

lemma variant_guard_returns:
  "(isObject v \<Longrightarrow> \<exists>b. allE tests = Inr b) \<Longrightarrow> \<exists>b. variant_guard v tests = Inr b"
  using hasBase_returns [of v] by (cases "isObject v") (auto simp add: variant_guard_def)

lemma variant_guard_True:
  "variant_guard v tests = Inr True \<longleftrightarrow>
     isObject v \<and> hasBaseContentItemFields v = Inr True \<and> allE tests = Inr True"
  using hasBase_returns [of v]
  by (cases "isObject v") (auto simp add: variant_guard_def split: if_splits)

lemma variant_guard_not_object: "\<not> isObject v \<Longrightarrow> variant_guard v tests = Inr False"
  by (simp add: variant_guard_def)

lemma isCompanyItem_returns: "\<exists>b. isCompanyItem v = Inr b"
  unfolding isCompanyItem_def
  by (rule variant_guard_returns) (auto simp add: check_prop_object tests_defs)

lemma isProjectItem_returns: "\<exists>b. isProjectItem v = Inr b"
  unfolding isProjectItem_def
  by (rule variant_guard_returns) (auto simp add: check_prop_object tests_defs)

lemma isSkillGroupItem_returns: "\<exists>b. isSkillGroupItem v = Inr b"
  unfolding isSkillGroupItem_def
  by (rule variant_guard_returns) (auto simp add: check_prop_object tests_defs)

lemma isEducationItem_returns: "\<exists>b. isEducationItem v = Inr b"
  unfolding isEducationItem_def
  by (rule variant_guard_returns) (auto simp add: check_prop_object tests_defs)

lemma isProfileSectionItem_returns: "\<exists>b. isProfileSectionItem v = Inr b"
  unfolding isProfileSectionItem_def
  by (rule variant_guard_returns) (auto simp add: check_prop_object tests_defs)

lemma isAccomplishmentItem_returns: "\<exists>b. isAccomplishmentItem v = Inr b"
  unfolding isAccomplishmentItem_def
  by (rule variant_guard_returns) (auto simp add: check_prop_object tests_defs)

lemmas variant_returns = isCompanyItem_returns isProjectItem_returns isSkillGroupItem_returns
  isEducationItem_returns isProfileSectionItem_returns isAccomplishmentItem_returns

lemma isCompanyItem_True:
  "isCompanyItem v = Inr True \<Longrightarrow>
     read_prop v ''type'' = JStr ''company'' \<and> typeof (read_prop v ''company'') = ''string'' \<and>
     typeof (read_prop v ''startDate'') = ''string''"
  by (auto simp add: isCompanyItem_def variant_guard_True allE_eq_True check_prop_object tests_defs)

lemma isProjectItem_True:
  "isProjectItem v = Inr True \<Longrightarrow>
     read_prop v ''type'' = JStr ''project'' \<and> typeof (read_prop v ''name'') = ''string'' \<and>
     typeof (read_prop v ''description'') = ''string''"
  by (auto simp add: isProjectItem_def variant_guard_True allE_eq_True check_prop_object tests_defs)

lemma isSkillGroupItem_True:
  "isSkillGroupItem v = Inr True \<Longrightarrow>
     read_prop v ''type'' = JStr ''skill-group'' \<and> typeof (read_prop v ''category'') = ''string'' \<and>
     isStringArray (read_prop v ''skills'')"
  by (auto simp add: isSkillGroupItem_def variant_guard_True allE_eq_True check_prop_object
      tests_defs)

lemma isEducationItem_True:
  "isEducationItem v = Inr True \<Longrightarrow>
     read_prop v ''type'' = JStr ''education'' \<and> typeof (read_prop v ''institution'') = ''string''"
  by (auto simp add: isEducationItem_def variant_guard_True allE_eq_True check_prop_object
      tests_defs)

lemma isProfileSectionItem_True:
  "isProfileSectionItem v = Inr True \<Longrightarrow>
     read_prop v ''type'' = JStr ''profile-section'' \<and>
     typeof (read_prop v ''heading'') = ''string'' \<and> typeof (read_prop v ''content'') = ''string''"
  by (auto simp add: isProfileSectionItem_def variant_guard_True allE_eq_True check_prop_object
      tests_defs)

lemma isAccomplishmentItem_True:
  "isAccomplishmentItem v = Inr True \<Longrightarrow>
     read_prop v ''type'' = JStr ''accomplishment'' \<and>
     typeof (read_prop v ''description'') = ''string''"
  by (auto simp add: isAccomplishmentItem_def variant_guard_True allE_eq_True check_prop_object
      tests_defs)

text \<open>The discriminator each variant guard compares \<^verbatim>\<open>item.type\<close> with.\<close>

lemma variant_discriminator:
  assumes "i < length variant_guards" and "(variant_guards ! i) v = Inr True"
  shows "read_prop v ''type'' = JStr (variant_literals ! i)"
proof -
  from assms(1) have "i < 6" by (simp add: variant_guards_def)
  then consider "i = 0" | "i = 1" | "i = 2" | "i = 3" | "i = 4" | "i = 5"
    by linarith
  then show ?thesis
    using assms(2)
    by cases
      (simp_all add: variant_guards_def variant_literals_def isCompanyItem_True isProjectItem_True
        isSkillGroupItem_True isEducationItem_True isProfileSectionItem_True
        isAccomplishmentItem_True)
qed

lemma variant_guards_return:
  assumes "i < length variant_guards"
  shows "\<exists>b. (variant_guards ! i) v = Inr b"
proof -
  from assms have "i < 6" by (simp add: variant_guards_def)
  then consider "i = 0" | "i = 1" | "i = 2" | "i = 3" | "i = 4" | "i = 5"
    by linarith
  then show ?thesis
    by cases (simp_all add: variant_guards_def variant_returns)
qed

lemma variant_literals_distinct: "distinct variant_literals" "length variant_literals = 6"
  by (simp_all add: variant_literals_def)

text \<open>
  Claim C5. The six variant guards of a content item are mutually exclusive: for every
  value \<open>v\<close> and every two distinct guards among \<^verbatim>\<open>isCompanyItem\<close>, \<^verbatim>\<open>isProjectItem\<close>,
  \<^verbatim>\<open>isSkillGroupItem\<close>, \<^verbatim>\<open>isEducationItem\<close>, \<^verbatim>\<open>isProfileSectionItem\<close> and
  \<^verbatim>\<open>isAccomplishmentItem\<close>, if the first returns true on \<open>v\<close> then the second returns
  false on \<open>v\<close>.
\<close>

theorem variant_guards_exclusive:
  assumes "i < length variant_guards" and "j < length variant_guards" and "i \<noteq> j"
    and "(variant_guards ! i) v = Inr True"
  shows "(variant_guards ! j) v = Inr False"
proof (rule returns_not_True)
  show "\<exists>b. (variant_guards ! j) v = Inr b"
    using assms(2) by (rule variant_guards_return)
  show "(variant_guards ! j) v \<noteq> Inr True"
  proof
    assume "(variant_guards ! j) v = Inr True"
    with assms(2) have "read_prop v ''type'' = JStr (variant_literals ! j)"
      by (rule variant_discriminator)
    moreover from assms(1,4) have "read_prop v ''type'' = JStr (variant_literals ! i)"
      by (rule variant_discriminator)
    ultimately have "variant_literals ! i = variant_literals ! j"
      by simp
    moreover have "i < length variant_literals" "j < length variant_literals"
      using assms(1,2) by (simp_all add: variant_literals_def variant_guards_def)
    ultimately show False
      using assms(3) variant_literals_distinct(1) by (simp add: nth_eq_iff_index_eq)
  qed
qed


lemmas eval_defs = isObject_def check_prop_def get_prop_def tests_defs date_like_def
  isStringArray_def variant_guard_def hasBaseContentItemFields_def
  sample_base_def sample_timestamp_def sample_queue_item_def

theorem variant_guards_exclusive_witness:
  "isCompanyItem (JObj (sample_base ''company'' @
      [(''company'', JStr ''Acme''), (''startDate'', JStr ''2020-01'')])) = Inr True \<and>
   isProjectItem (JObj (sample_base ''company'' @
      [(''company'', JStr ''Acme''), (''startDate'', JStr ''2020-01'')])) = Inr False"
proof -
  let ?v = "JObj (sample_base ''company'' @
      [(''company'', JStr ''Acme''), (''startDate'', JStr ''2020-01'')])"
  have company: "(variant_guards ! 0) ?v = Inr True"
    by (simp add: variant_guards_def isCompanyItem_def eval_defs)
  have "(variant_guards ! 1) ?v = Inr False"
    by (rule variant_guards_exclusive [of 0 1, OF _ _ _ company])
      (simp_all add: variant_guards_def)
  with company show ?thesis
    by (simp add: variant_guards_def)
qed

lemma isCompanyItem_False:
  "\<not> (read_prop v ''type'' = JStr ''company'' \<and> typeof (read_prop v ''company'') = ''string'' \<and>
      typeof (read_prop v ''startDate'') = ''string'') \<Longrightarrow> isCompanyItem v = Inr False"
  using returns_not_True [OF isCompanyItem_returns [of v]] isCompanyItem_True [of v] by blast

lemma isProjectItem_False:
  "\<not> (read_prop v ''type'' = JStr ''project'' \<and> typeof (read_prop v ''name'') = ''string'' \<and>
      typeof (read_prop v ''description'') = ''string'') \<Longrightarrow> isProjectItem v = Inr False"
  using returns_not_True [OF isProjectItem_returns [of v]] isProjectItem_True [of v] by blast

lemma isSkillGroupItem_False:
  "\<not> (read_prop v ''type'' = JStr ''skill-group'' \<and>
      typeof (read_prop v ''category'') = ''string'' \<and> isStringArray (read_prop v ''skills'')) \<Longrightarrow>
   isSkillGroupItem v = Inr False"
  using returns_not_True [OF isSkillGroupItem_returns [of v]] isSkillGroupItem_True [of v]
  by blast

lemma isEducationItem_False:
  "\<not> (read_prop v ''type'' = JStr ''education'' \<and>
      typeof (read_prop v ''institution'') = ''string'') \<Longrightarrow> isEducationItem v = Inr False"
  using returns_not_True [OF isEducationItem_returns [of v]] isEducationItem_True [of v]
  by blast

lemma isProfileSectionItem_False:
  "\<not> (read_prop v ''type'' = JStr ''profile-section'' \<and>
      typeof (read_prop v ''heading'') = ''string'' \<and>
      typeof (read_prop v ''content'') = ''string'') \<Longrightarrow> isProfileSectionItem v = Inr False"
  using returns_not_True [OF isProfileSectionItem_returns [of v]] isProfileSectionItem_True [of v]
  by blast

lemma isAccomplishmentItem_False:
  "\<not> (read_prop v ''type'' = JStr ''accomplishment'' \<and>
      typeof (read_prop v ''description'') = ''string'') \<Longrightarrow> isAccomplishmentItem v = Inr False"
  using returns_not_True [OF isAccomplishmentItem_returns [of v]] isAccomplishmentItem_True [of v]
  by blast

lemmas variant_False = isCompanyItem_False isProjectItem_False isSkillGroupItem_False
  isEducationItem_False isProfileSectionItem_False isAccomplishmentItem_False

lemma orE_eq_False: "orE a b = Inr False \<longleftrightarrow> a = Inr False \<and> b = Inr False"
  by (auto simp add: orE_def split: sum.splits)

lemma isContentItem_False:
  "isContentItem v = Inr False \<longleftrightarrow>
     isCompanyItem v = Inr False \<and> isProjectItem v = Inr False \<and> isSkillGroupItem v = Inr False \<and>
     isEducationItem v = Inr False \<and> isProfileSectionItem v = Inr False \<and>
     isAccomplishmentItem v = Inr False"
  by (simp add: isContentItem_def orE_eq_False)

text \<open>
  Claim C6. \<^verbatim>\<open>isContentItem\<close> returns false on every value whose \<^verbatim>\<open>type\<close> is not one of
  the six discriminators, whatever its other fields; and on every value whose \<^verbatim>\<open>type\<close>
  is the discriminator of a variant but which fails a test of that variant's own
  required fields (for \<^verbatim>\<open>skill-group\<close>: a string \<^verbatim>\<open>category\<close> and a string array
  \<^verbatim>\<open>skills\<close>).
\<close>

theorem isContentItem_rejects:
  "(read_prop v ''type'' \<notin> {JStr ''company'', JStr ''project'', JStr ''skill-group'',
       JStr ''education'', JStr ''profile-section'', JStr ''accomplishment''} \<longrightarrow>
      isContentItem v = Inr False) \<and>
   (read_prop v ''type'' = JStr ''company'' \<and>
      \<not> (typeof (read_prop v ''company'') = ''string'' \<and>
         typeof (read_prop v ''startDate'') = ''string'') \<longrightarrow> isContentItem v = Inr False) \<and>
   (read_prop v ''type'' = JStr ''project'' \<and>
      \<not> (typeof (read_prop v ''name'') = ''string'' \<and>
         typeof (read_prop v ''description'') = ''string'') \<longrightarrow> isContentItem v = Inr False) \<and>
   (read_prop v ''type'' = JStr ''skill-group'' \<and>
      \<not> (typeof (read_prop v ''category'') = ''string'' \<and>
         isStringArray (read_prop v ''skills'')) \<longrightarrow> isContentItem v = Inr False) \<and>
   (read_prop v ''type'' = JStr ''education'' \<and>
      typeof (read_prop v ''institution'') \<noteq> ''string'' \<longrightarrow> isContentItem v = Inr False) \<and>
   (read_prop v ''type'' = JStr ''profile-section'' \<and>
      \<not> (typeof (read_prop v ''heading'') = ''string'' \<and>
         typeof (read_prop v ''content'') = ''string'') \<longrightarrow> isContentItem v = Inr False) \<and>
   (read_prop v ''type'' = JStr ''accomplishment'' \<and>
      typeof (read_prop v ''description'') \<noteq> ''string'' \<longrightarrow> isContentItem v = Inr False)"
  unfolding isContentItem_False
  by (intro conjI impI variant_False) simp_all

theorem isContentItem_rejects_witness:
  "isContentItem (JObj (sample_base ''certificate'' @
      [(''company'', JStr ''Acme''), (''startDate'', JStr ''2020-01''), (''name'', JStr ''n''),
       (''description'', JStr ''d''), (''institution'', JStr ''i'')])) = Inr False \<and>
   isContentItem (JObj (sample_base ''skill-group'' @ [(''skills'', JArr [JStr ''HOL''])]))
     = Inr False \<and>
   isContentItem (JObj (sample_base ''skill-group'' @
      [(''category'', JStr ''provers''), (''skills'', JArr [JStr ''HOL'', JNum (Finite 1)])]))
     = Inr False"
  using isContentItem_rejects [of "JObj (sample_base ''certificate'' @
      [(''company'', JStr ''Acme''), (''startDate'', JStr ''2020-01''), (''name'', JStr ''n''),
       (''description'', JStr ''d''), (''institution'', JStr ''i'')])", THEN conjunct1]
    isContentItem_rejects [of "JObj (sample_base ''skill-group'' @ [(''skills'', JArr [JStr ''HOL''])])",
      THEN conjunct2, THEN conjunct2, THEN conjunct2, THEN conjunct1]
    isContentItem_rejects [of "JObj (sample_base ''skill-group'' @
      [(''category'', JStr ''provers''), (''skills'', JArr [JStr ''HOL'', JNum (Finite 1)])])",
      THEN conjunct2, THEN conjunct2, THEN conjunct2, THEN conjunct1]
  by (simp add: sample_base_def isStringArray_def)

lemma skill_group_sample_accepted:
  "isContentItem (JObj (sample_base ''skill-group'' @
      [(''category'', JStr ''provers''), (''skills'', JArr [JStr ''HOL''])])) = Inr True"
  by (simp add: isContentItem_def isCompanyItem_def isProjectItem_def isSkillGroupItem_def
      isEducationItem_def isProfileSectionItem_def isAccomplishmentItem_def eval_defs)

section \<open>ISO date strings\<close>

lemma iso_string_last: "last (iso_string t) = CHR ''Z''"
  by (simp add: iso_string_def Let_def split_def)

lemma parse_utc_instant_example:
  "parse_utc_instant ''2024-01-01T00:00:00.000Z'' = Some 1704067200000"
  by code_simp

lemma iso_string_example: "iso_string 1704067200000 = ''2024-01-01T00:00:00.000Z''"
  by code_simp

lemma isISODateString_eq:
  "isISODateString other v =
     Inr (\<exists>s t. v = JStr s \<and> date_parse other s = Some t \<and> \<bar>t\<bar> \<le> 8640000000000000 \<and>
                iso_string t = s)"
proof (cases v)
  case (JStr s)
  show ?thesis
  proof (cases "date_parse other s")
    case None
    with JStr show ?thesis
      by (simp add: isISODateString_def new_Date_def)
  next
    case (Some t)
    with JStr show ?thesis
      by (simp add: isISODateString_def new_Date_def time_clip_def toISOString_def)
  qed
qed (simp_all add: isISODateString_def)

text \<open>
  Claim C7. For every value \<open>v\<close>, \<^verbatim>\<open>isISODateString(v)\<close> returns, and it returns true
  exactly when \<open>v\<close> is a string that \<^verbatim>\<open>Date.parse\<close> reads as a valid time value whose
  \<^verbatim>\<open>toISOString\<close> is that same string. Whatever an engine makes of the strings outside
  the full format, \<^verbatim>\<open>"2024-01-01T00:00:00.000Z"\<close> is accepted and \<^verbatim>\<open>"2024-01-01"\<close> is
  rejected, also when it parses to a valid date.
\<close>

theorem isISODateString_round_trip:
  "isISODateString other v =
     Inr (\<exists>s t. v = JStr s \<and> date_parse other s = Some t \<and> \<bar>t\<bar> \<le> 8640000000000000 \<and>
                iso_string t = s) \<and>
   isISODateString other (JStr ''2024-01-01T00:00:00.000Z'') = Inr True \<and>
   isISODateString other (JStr ''2024-01-01'') = Inr False"
proof (intro conjI)
  show "isISODateString other (JStr ''2024-01-01T00:00:00.000Z'') = Inr True"
    by (simp add: isISODateString_eq date_parse_def parse_utc_instant_example iso_string_example)
  have "iso_string t \<noteq> ''2024-01-01''" for t
    using iso_string_last [of t] by auto
  then show "isISODateString other (JStr ''2024-01-01'') = Inr False"
    by (simp add: isISODateString_eq)
qed (rule isISODateString_eq)

theorem isISODateString_round_trip_witness:
  "date_parse (\<lambda>s. Some 1704067200000) ''2024-01-01'' = Some 1704067200000 \<and>
   isISODateString (\<lambda>s. Some 1704067200000) (JStr ''2024-01-01'') = Inr False \<and>
   isISODateString (\<lambda>s. None) (JStr ''2024-01-01T00:00:00.000Z'') = Inr True \<and>
   isISODateString (\<lambda>s. None) (JNum (Finite 1704067200000)) = Inr False"
proof -
  have "date_parse (\<lambda>s. Some 1704067200000) ''2024-01-01'' = Some 1704067200000"
    by (simp add: date_parse_def parse_utc_instant_def)
  then show ?thesis
    using isISODateString_round_trip [of "\<lambda>s. Some 1704067200000", THEN conjunct2]
      isISODateString_round_trip [of "\<lambda>s. None" "JNum (Finite 1704067200000)"]
    by simp
qed

section \<open>Queue items and timestamps\<close>

lemma read_prop_update:
  "read_prop (JObj (AList.update k x kvs)) k' = (if k' = k then x else read_prop (JObj kvs) k')"
  by (simp add: update_conv')

lemma read_prop_delete:
  "read_prop (JObj (AList.delete k kvs)) k' = (if k' = k then JUndefined else read_prop (JObj kvs) k')"
  by (simp add: delete_conv')

lemma isQueueItem_True:
  "isQueueItem (JObj kvs) = Inr True \<longleftrightarrow>
     list_all (\<lambda>c. c = Inr True)
       [isQueueItemType (read_prop (JObj kvs) ''type''),
        isQueueStatus (read_prop (JObj kvs) ''status''),
        typeof_is ''string'' (read_prop (JObj kvs) ''url''),
        typeof_is ''string'' (read_prop (JObj kvs) ''company_name''),
        null_or_string (read_prop (JObj kvs) ''company_id''),
        isQueueSource (read_prop (JObj kvs) ''source''),
        null_or_string (read_prop (JObj kvs) ''submitted_by''),
        typeof_is ''number'' (read_prop (JObj kvs) ''retry_count''),
        typeof_is ''number'' (read_prop (JObj kvs) ''max_retries''),
        isDateLike (read_prop (JObj kvs) ''created_at''),
        isDateLike (read_prop (JObj kvs) ''updated_at'')]"
  by (simp add: isQueueItem_def allE_eq_True check_prop_object del: allE.simps)

text \<open>
  Claim C10. \<^verbatim>\<open>isQueueItem\<close> never looks at the optional fields \<^verbatim>\<open>id\<close>, \<^verbatim>\<open>result_message\<close>,
  \<^verbatim>\<open>error_details\<close>, \<^verbatim>\<open>processed_at\<close> and \<^verbatim>\<open>completed_at\<close>: setting one of them to any
  value whatever, or removing it, leaves the result unchanged, so an object that the
  guard accepts is still accepted when such a field holds a value of a wrong type.
\<close>

theorem isQueueItem_ignores_optional:
  assumes "f \<in> set QueueItem_optional"
  shows "isQueueItem (JObj (AList.update f x kvs)) = isQueueItem (JObj kvs) \<and>
         isQueueItem (JObj (AList.delete f kvs)) = isQueueItem (JObj kvs) \<and>
         (isQueueItem (JObj kvs) = Inr True \<longrightarrow>
            isQueueItem (JObj (AList.update f x kvs)) = Inr True)"
proof -
  from assms have f: "f \<noteq> ''type''" "f \<noteq> ''status''" "f \<noteq> ''url''" "f \<noteq> ''company_name''"
    "f \<noteq> ''company_id''" "f \<noteq> ''source''" "f \<noteq> ''submitted_by''" "f \<noteq> ''retry_count''"
    "f \<noteq> ''max_retries''" "f \<noteq> ''created_at''" "f \<noteq> ''updated_at''"
    by (auto simp add: QueueItem_optional_def)
  have "isQueueItem (JObj (AList.update f x kvs)) = isQueueItem (JObj kvs)"
    unfolding isQueueItem_def using f
    by (simp add: check_prop_object read_prop_update del: read_prop.simps)
  moreover have "isQueueItem (JObj (AList.delete f kvs)) = isQueueItem (JObj kvs)"
    unfolding isQueueItem_def using f
    by (simp add: check_prop_object read_prop_delete del: read_prop.simps)
  ultimately show ?thesis
    by simp
qed

lemma sample_queue_item_accepted: "isQueueItem (JObj sample_queue_item) = Inr True"
  by (simp add: isQueueItem_def eval_defs)

theorem isQueueItem_ignores_optional_witness:
  "''processed_at'' \<in> set QueueItem_optional \<and> ''error_details'' \<in> set QueueItem_optional \<and>
   isQueueItem (JObj sample_queue_item) = Inr True \<and>
   isQueueItem (JObj (AList.update ''error_details'' (JObj [(''code'', JNum (Finite 500))])
                       (AList.update ''processed_at'' (JNum (Finite 5)) sample_queue_item)))
     = Inr True"
proof -
  have p: "''processed_at'' \<in> set QueueItem_optional"
    and e: "''error_details'' \<in> set QueueItem_optional"
    by (simp_all add: QueueItem_optional_def)
  have ok: "isQueueItem (JObj sample_queue_item) = Inr True"
    by (simp add: isQueueItem_def eval_defs)
  from isQueueItem_ignores_optional [OF p, of "JNum (Finite 5)" sample_queue_item] ok
  have "isQueueItem (JObj (AList.update ''processed_at'' (JNum (Finite 5)) sample_queue_item))
          = Inr True"
    by simp
  with isQueueItem_ignores_optional [OF e, of "JObj [(''code'', JNum (Finite 500))]"
      "AList.update ''processed_at'' (JNum (Finite 5)) sample_queue_item"]
  have "isQueueItem (JObj (AList.update ''error_details'' (JObj [(''code'', JNum (Finite 500))])
                       (AList.update ''processed_at'' (JNum (Finite 5)) sample_queue_item)))
     = Inr True"
    by simp
  with p e ok show ?thesis
    by simp
qed

lemma isObject_invalid_dates [simp]: "isObject (invalid_dates k1 k2 kvs)"
  by (simp add: invalid_dates_def)

lemma read_prop_invalid_dates:
  "read_prop (invalid_dates k1 k2 kvs) k =
     (if k = k1 \<or> k = k2 then JDate None else read_prop (JObj kvs) k)"
  by (simp add: invalid_dates_def read_prop_update del: read_prop.simps)

lemma isDateLike_Date: "isDateLike (JDate t) = Inr True"
  by (simp add: isDateLike_def)

lemma isQueueItem_invalid_dates:
  "isQueueItem (JObj kvs) = Inr True \<Longrightarrow>
   isQueueItem (invalid_dates ''created_at'' ''updated_at'' kvs) = Inr True"
  by (simp add: isQueueItem_def andE_eq_True check_prop_object read_prop_invalid_dates
      isDateLike_Date del: read_prop.simps)

lemma isJobMatch_invalid_dates:
  "isJobMatch (JObj kvs) = Inr True \<Longrightarrow>
   isJobMatch (invalid_dates ''analyzedAt'' ''createdAt'' kvs) = Inr True"
  by (simp add: isJobMatch_def andE_eq_True check_prop_object read_prop_invalid_dates
      isDateLike_Date del: read_prop.simps anyE.simps)

lemma hasBase_invalid_dates:
  "hasBaseContentItemFields (JObj kvs) = Inr True \<Longrightarrow>
   hasBaseContentItemFields (invalid_dates ''createdAt'' ''updatedAt'' kvs) = Inr True"
  by (simp add: hasBaseContentItemFields_def andE_eq_True check_prop_object
      read_prop_invalid_dates isDateLike_Date del: read_prop.simps)

lemma variant_invalid_dates:
  assumes "g \<in> set variant_guards" and "g (JObj kvs) = Inr True"
  shows "g (invalid_dates ''createdAt'' ''updatedAt'' kvs) = Inr True"
proof -
  from assms(1) consider "g = isCompanyItem" | "g = isProjectItem" | "g = isSkillGroupItem"
    | "g = isEducationItem" | "g = isProfileSectionItem" | "g = isAccomplishmentItem"
    by (auto simp add: variant_guards_def)
  then show ?thesis
    using assms(2)
    by cases
      (simp_all add: isCompanyItem_def isProjectItem_def isSkillGroupItem_def
        isEducationItem_def isProfileSectionItem_def isAccomplishmentItem_def
        variant_guard_True hasBase_invalid_dates andE_eq_True check_prop_object
        read_prop_invalid_dates del: read_prop.simps)
qed

lemma variants_invalid_dates:
  "isCompanyItem (JObj kvs) = Inr True \<Longrightarrow>
     isCompanyItem (invalid_dates ''createdAt'' ''updatedAt'' kvs) = Inr True"
  "isProjectItem (JObj kvs) = Inr True \<Longrightarrow>
     isProjectItem (invalid_dates ''createdAt'' ''updatedAt'' kvs) = Inr True"
  "isSkillGroupItem (JObj kvs) = Inr True \<Longrightarrow>
     isSkillGroupItem (invalid_dates ''createdAt'' ''updatedAt'' kvs) = Inr True"
  "isEducationItem (JObj kvs) = Inr True \<Longrightarrow>
     isEducationItem (invalid_dates ''createdAt'' ''updatedAt'' kvs) = Inr True"
  "isProfileSectionItem (JObj kvs) = Inr True \<Longrightarrow>
     isProfileSectionItem (invalid_dates ''createdAt'' ''updatedAt'' kvs) = Inr True"
  "isAccomplishmentItem (JObj kvs) = Inr True \<Longrightarrow>
     isAccomplishmentItem (invalid_dates ''createdAt'' ''updatedAt'' kvs) = Inr True"
  by (simp_all add: variant_invalid_dates variant_guards_def)

lemma sample_job_match_accepted: "isJobMatch (JObj sample_job_match) = Inr True"
  by (simp add: isJobMatch_def sample_job_match_def eval_defs)

lemma sample_content_items_accepted:
  "list_all2 (\<lambda>g kvs. g (JObj kvs) = Inr True) variant_guards sample_content_items"
  by (simp add: variant_guards_def sample_content_items_def isCompanyItem_def isProjectItem_def
      isSkillGroupItem_def isEducationItem_def isProfileSectionItem_def isAccomplishmentItem_def
      eval_defs)

lemma invalid_dates_are_invalid:
  "read_prop (invalid_dates k1 k2 kvs) k1 = JDate None"
  "read_prop (invalid_dates k1 k2 kvs) k2 = JDate None"
  by (simp_all add: read_prop_invalid_dates del: read_prop.simps)

text \<open>
  Claim C9. \<^verbatim>\<open>isDateLike\<close> returns true on every Date, the invalid one (time value
  NaN) included, whereas \<^verbatim>\<open>isDate\<close> returns true on a Date exactly when it is valid.
  So an object that \<^verbatim>\<open>isQueueItem\<close>, \<^verbatim>\<open>isJobMatch\<close> or a variant guard of a content item
  accepts is still accepted when its two mandatory timestamps are invalid Dates; and
  each of these guards does accept such records: the sample queue item, the sample job
  match and the sample content item of each of the six variants, with both timestamps
  invalid Dates, are accepted.
\<close>

theorem isDateLike_accepts_invalid_Date:
  "isDateLike (JDate t) = Inr True \<and>
   isDate (JDate t) = Inr (t \<noteq> None) \<and>
   (isQueueItem (JObj kvs) = Inr True \<longrightarrow>
      isQueueItem (invalid_dates ''created_at'' ''updated_at'' kvs) = Inr True) \<and>
   (isJobMatch (JObj kvs) = Inr True \<longrightarrow>
      isJobMatch (invalid_dates ''analyzedAt'' ''createdAt'' kvs) = Inr True) \<and>
   (\<forall>g \<in> set variant_guards. g (JObj kvs) = Inr True \<longrightarrow>
      g (invalid_dates ''createdAt'' ''updatedAt'' kvs) = Inr True) \<and>
   isQueueItem (invalid_dates ''created_at'' ''updated_at'' sample_queue_item) = Inr True \<and>
   isJobMatch (invalid_dates ''analyzedAt'' ''createdAt'' sample_job_match) = Inr True \<and>
   list_all2 (\<lambda>g kvs. g (invalid_dates ''createdAt'' ''updatedAt'' kvs) = Inr True)
     variant_guards sample_content_items"
proof -
  have "list_all2 (\<lambda>g kvs. g (invalid_dates ''createdAt'' ''updatedAt'' kvs) = Inr True)
     variant_guards sample_content_items"
    using sample_content_items_accepted
    by (simp add: variant_guards_def sample_content_items_def variants_invalid_dates)
  then show ?thesis
    by (simp add: isDateLike_Date isDate_def isQueueItem_invalid_dates isJobMatch_invalid_dates
        variant_invalid_dates sample_queue_item_accepted sample_job_match_accepted)
qed

theorem isDateLike_accepts_invalid_Date_witness:
  "isDateLike (JDate None) = Inr True \<and> isDate (JDate None) = Inr False \<and>
   isDate (JDate (Some 0)) = Inr True \<and>
   isQueueItem (JObj sample_queue_item) = Inr True \<and>
   isQueueItem (invalid_dates ''created_at'' ''updated_at'' sample_queue_item) = Inr True \<and>
   read_prop (invalid_dates ''created_at'' ''updated_at'' sample_queue_item) ''created_at''
     = JDate None \<and>
   read_prop (invalid_dates ''created_at'' ''updated_at'' sample_queue_item) ''updated_at''
     = JDate None \<and>
   isJobMatch (JObj sample_job_match) = Inr True \<and>
   isJobMatch (invalid_dates ''analyzedAt'' ''createdAt'' sample_job_match) = Inr True \<and>
   read_prop (invalid_dates ''analyzedAt'' ''createdAt'' sample_job_match) ''analyzedAt''
     = JDate None \<and>
   read_prop (invalid_dates ''analyzedAt'' ''createdAt'' sample_job_match) ''createdAt''
     = JDate None \<and>
   isCompanyItem (JObj (sample_content_items ! 0)) = Inr True \<and>
   isCompanyItem (invalid_dates ''createdAt'' ''updatedAt'' (sample_content_items ! 0))
     = Inr True \<and>
   isProjectItem (JObj (sample_content_items ! 1)) = Inr True \<and>
   isProjectItem (invalid_dates ''createdAt'' ''updatedAt'' (sample_content_items ! 1))
     = Inr True \<and>
   isSkillGroupItem (JObj (sample_content_items ! 2)) = Inr True \<and>
   isSkillGroupItem (invalid_dates ''createdAt'' ''updatedAt'' (sample_content_items ! 2))
     = Inr True \<and>
   isEducationItem (JObj (sample_content_items ! 3)) = Inr True \<and>
   isEducationItem (invalid_dates ''createdAt'' ''updatedAt'' (sample_content_items ! 3))
     = Inr True \<and>
   isProfileSectionItem (JObj (sample_content_items ! 4)) = Inr True \<and>
   isProfileSectionItem (invalid_dates ''createdAt'' ''updatedAt'' (sample_content_items ! 4))
     = Inr True \<and>
   isAccomplishmentItem (JObj (sample_content_items ! 5)) = Inr True \<and>
   isAccomplishmentItem (invalid_dates ''createdAt'' ''updatedAt'' (sample_content_items ! 5))
     = Inr True"
proof -
  have queue: "isQueueItem (JObj sample_queue_item) = Inr True"
    by (simp add: isQueueItem_def eval_defs)
  have job: "isJobMatch (JObj sample_job_match) = Inr True"
    by (simp add: isJobMatch_def sample_job_match_def eval_defs)
  have items: "isCompanyItem (JObj (sample_content_items ! 0)) = Inr True"
    "isProjectItem (JObj (sample_content_items ! 1)) = Inr True"
    "isSkillGroupItem (JObj (sample_content_items ! 2)) = Inr True"
    "isEducationItem (JObj (sample_content_items ! 3)) = Inr True"
    "isProfileSectionItem (JObj (sample_content_items ! 4)) = Inr True"
    "isAccomplishmentItem (JObj (sample_content_items ! 5)) = Inr True"
    by (simp_all add: sample_content_items_def isCompanyItem_def isProjectItem_def
        isSkillGroupItem_def isEducationItem_def isProfileSectionItem_def
        isAccomplishmentItem_def eval_defs)
  have guards: "isCompanyItem \<in> set variant_guards" "isProjectItem \<in> set variant_guards"
    "isSkillGroupItem \<in> set variant_guards" "isEducationItem \<in> set variant_guards"
    "isProfileSectionItem \<in> set variant_guards" "isAccomplishmentItem \<in> set variant_guards"
    by (simp_all add: variant_guards_def)
  note t = isDateLike_accepts_invalid_Date
  have "isQueueItem (invalid_dates ''created_at'' ''updated_at'' sample_queue_item) = Inr True"
    using t [of None sample_queue_item] queue by blast
  moreover have "isJobMatch (invalid_dates ''analyzedAt'' ''createdAt'' sample_job_match)
      = Inr True"
    using t [of None sample_job_match] job by blast
  moreover have
    "isCompanyItem (invalid_dates ''createdAt'' ''updatedAt'' (sample_content_items ! 0))
       = Inr True"
    using t [of None "sample_content_items ! 0"] guards(1) items(1) by blast
  moreover have
    "isProjectItem (invalid_dates ''createdAt'' ''updatedAt'' (sample_content_items ! 1))
       = Inr True"
    using t [of None "sample_content_items ! 1"] guards(2) items(2) by blast
  moreover have
    "isSkillGroupItem (invalid_dates ''createdAt'' ''updatedAt'' (sample_content_items ! 2))
       = Inr True"
    using t [of None "sample_content_items ! 2"] guards(3) items(3) by blast
  moreover have
    "isEducationItem (invalid_dates ''createdAt'' ''updatedAt'' (sample_content_items ! 3))
       = Inr True"
    using t [of None "sample_content_items ! 3"] guards(4) items(4) by blast
  moreover have
    "isProfileSectionItem (invalid_dates ''createdAt'' ''updatedAt'' (sample_content_items ! 4))
       = Inr True"
    using t [of None "sample_content_items ! 4"] guards(5) items(5) by blast
  moreover have
    "isAccomplishmentItem (invalid_dates ''createdAt'' ''updatedAt'' (sample_content_items ! 5))
       = Inr True"
    using t [of None "sample_content_items ! 5"] guards(6) items(6) by blast
  moreover have "isDateLike (JDate None) = Inr True" "isDate (JDate None) = Inr False"
    using t [of None sample_queue_item] by simp_all
  moreover have "isDate (JDate (Some 0)) = Inr True"
    using t [of "Some 0" sample_queue_item] by simp
  ultimately show ?thesis
    using queue job items by (simp add: invalid_dates_are_invalid)
qed

section \<open>No guard of an unknown value throws\<close>

lemma allE_map_returns: "(\<And>x. \<exists>b. f x = Inr b) \<Longrightarrow> \<exists>b. allE (map f xs) = Inr b"
  by (rule allE_returns) (simp add: list_all_iff)

lemma every_call_returns:
  "(\<And>x. \<exists>b. f x = Inr b) \<Longrightarrow> isArray v \<Longrightarrow> \<exists>b. every_call f v = Inr b"
  by (simp add: every_call_def allE_map_returns)

lemma array_then_every:
  assumes "\<And>x. \<exists>b. f x = Inr b" and "\<exists>b. rest = Inr b"
  shows "\<exists>b. andE (Inr (isArray x)) (andE (every_call f x) rest) = Inr b"
proof (cases "isArray x")
  case True
  from every_call_returns [of f x, OF assms(1) True] obtain b1 where "every_call f x = Inr b1"
    by blast
  moreover from assms(2) obtain b2 where "rest = Inr b2"
    by blast
  ultimately show ?thesis
    using True by simp
next
  case False
  then have "andE (Inr (isArray x)) (andE (every_call f x) rest) = Inr False"
    by simp
  then show ?thesis
    by blast
qed

lemma isQueueItem_returns: "\<exists>b. isQueueItem v = Inr b"
  by (cases "isObject v") (auto simp add: isQueueItem_def check_prop_object tests_defs)

lemma isStopList_returns: "\<exists>b. isStopList v = Inr b"
  by (cases "isObject v") (auto simp add: isStopList_def check_prop_object tests_defs)

lemma isQueueSettings_returns: "\<exists>b. isQueueSettings v = Inr b"
  by (cases "isObject v") (auto simp add: isQueueSettings_def check_prop_object tests_defs)

lemma isAISettings_returns: "\<exists>b. isAISettings v = Inr b"
  by (cases "isObject v") (auto simp add: isAISettings_def check_prop_object tests_defs)

lemma isExperienceHighlight_returns: "\<exists>b. isExperienceHighlight v = Inr b"
  by (cases "isObject v") (auto simp add: isExperienceHighlight_def check_prop_object tests_defs)

lemma isProjectRecommendation_returns: "\<exists>b. isProjectRecommendation v = Inr b"
  by (cases "isObject v") (auto simp add: isProjectRecommendation_def check_prop_object tests_defs)

lemma isGapMitigation_returns: "\<exists>b. isGapMitigation v = Inr b"
  by (cases "isObject v") (auto simp add: isGapMitigation_def check_prop_object tests_defs)

lemma isJobListing_returns: "\<exists>b. isJobListing v = Inr b"
  by (cases "isObject v") (auto simp add: isJobListing_def check_prop_object tests_defs)

lemma isJobMatch_returns: "\<exists>b. isJobMatch v = Inr b"
  by (cases "isObject v") (auto simp add: isJobMatch_def check_prop_object tests_defs)

lemma isCompany_returns: "\<exists>b. isCompany v = Inr b"
  by (cases "isObject v") (auto simp add: isCompany_def check_prop_object tests_defs)

lemma isResumeIntakeData_returns: "\<exists>b. isResumeIntakeData v = Inr b"
proof (cases "isObject v")
  case False
  then have "isResumeIntakeData v = Inr False"
    by (simp add: isResumeIntakeData_def)
  then show ?thesis
    by blast
next
  case True
  have tail: "\<exists>b. allE [string_array (read_prop v ''achievementAngles''),
                         string_array (read_prop v ''atsKeywords'')] = Inr b"
    by (simp add: tests_defs)
  have projects: "\<exists>b. andE (Inr (isArray (read_prop v ''projectsToInclude'')))
      (andE (every_call isProjectRecommendation (read_prop v ''projectsToInclude''))
        (allE [string_array (read_prop v ''achievementAngles''),
               string_array (read_prop v ''atsKeywords'')])) = Inr b"
    by (rule array_then_every [OF isProjectRecommendation_returns tail])
  have highlights: "\<exists>b. andE (Inr (isArray (read_prop v ''experienceHighlights'')))
      (andE (every_call isExperienceHighlight (read_prop v ''experienceHighlights''))
        (andE (Inr (isArray (read_prop v ''projectsToInclude'')))
          (andE (every_call isProjectRecommendation (read_prop v ''projectsToInclude''))
            (allE [string_array (read_prop v ''achievementAngles''),
                   string_array (read_prop v ''atsKeywords'')])))) = Inr b"
    by (rule array_then_every [OF isExperienceHighlight_returns projects])
  then obtain b where b: "andE (Inr (isArray (read_prop v ''experienceHighlights'')))
      (andE (every_call isExperienceHighlight (read_prop v ''experienceHighlights''))
        (andE (Inr (isArray (read_prop v ''projectsToInclude'')))
          (andE (every_call isProjectRecommendation (read_prop v ''projectsToInclude''))
            (allE [string_array (read_prop v ''achievementAngles''),
                   string_array (read_prop v ''atsKeywords'')])))) = Inr b"
    by blast
  have "isResumeIntakeData v =
     andE (Inr (typeof (read_prop v ''jobId'') = ''string'' \<and>
                typeof (read_prop v ''jobTitle'') = ''string'' \<and>
                typeof (read_prop v ''company'') = ''string'' \<and>
                typeof (read_prop v ''targetSummary'') = ''string'' \<and>
                isStringArray (read_prop v ''skillsPriority''))) (Inr b)"
    using True unfolding b [symmetric]
    by (simp add: isResumeIntakeData_def check_prop_object typeof_is_def string_array_def
        andE_def)
  then show ?thesis
    by simp
qed

lemma isContentItem_returns: "\<exists>b. isContentItem v = Inr b"
  unfolding isContentItem_def
  by (rule anyE_returns) (simp add: variant_returns)

lemma isNonEmptyString_returns: "\<exists>b. isNonEmptyString v = Inr b"
  by (cases "typeof v = ''string''") (auto simp add: isNonEmptyString_def trim_call_def)

lemma entity_guards_return: "list_all (\<lambda>g. \<exists>b. g v = Inr b) entity_guards"
  by (simp add: entity_guards_def isQueueItem_returns isStopList_returns isQueueSettings_returns
      isAISettings_returns isExperienceHighlight_returns isProjectRecommendation_returns
      isGapMitigation_returns isResumeIntakeData_returns isJobListing_returns
      isJobMatch_returns isCompany_returns variant_returns isContentItem_returns)

lemma isISODateString_returns: "\<exists>b. isISODateString other v = Inr b"
  using isISODateString_eq [of other v] by blast

lemma isApiResponse_returns: "\<exists>b. isApiResponse v = Inr b"
  using isApiResponse_eq [of v] by blast

lemma pure_guards_return:
  "\<exists>b. isValidUrl v = Inr b" "\<exists>b. isValidEmail v = Inr b" "\<exists>b. isQueueStatus v = Inr b"
  "\<exists>b. isQueueItemType v = Inr b" "\<exists>b. isQueueSource v = Inr b" "\<exists>b. isAIProvider v = Inr b"
  "\<exists>b. isContentItemType v = Inr b" "\<exists>b. isContentItemVisibility v = Inr b"
  "\<exists>b. isDate v = Inr b" "\<exists>b. isNonEmptyArray v = Inr b"
  by (auto simp add: isValidUrl_def isValidEmail_def isQueueStatus_def isQueueItemType_def
      isQueueSource_def isAIProvider_def isContentItemType_def isContentItemVisibility_def
      isDate_def isNonEmptyArray_def)

lemma string_guards_return: "list_all (\<lambda>g. \<exists>b. g v = Inr b) (string_guards other)"
  by (simp add: string_guards_def isISODateString_returns isNonEmptyString_returns pure_guards_return)

lemma other_guards_return: "list_all (\<lambda>g. \<exists>b. g v = Inr b) other_guards"
  by (simp add: other_guards_def isApiResponse_returns pure_guards_return)

lemma entity_not_object:
  assumes "\<not> isObject v"
  shows "isQueueItem v = Inr False" "isStopList v = Inr False" "isQueueSettings v = Inr False"
    "isAISettings v = Inr False" "isExperienceHighlight v = Inr False"
    "isProjectRecommendation v = Inr False" "isGapMitigation v = Inr False"
    "isResumeIntakeData v = Inr False" "isJobListing v = Inr False" "isJobMatch v = Inr False"
    "isCompany v = Inr False"
  using assms
  by (simp_all add: isQueueItem_def isStopList_def isQueueSettings_def isAISettings_def
      isExperienceHighlight_def isProjectRecommendation_def isGapMitigation_def
      isResumeIntakeData_def isJobListing_def isJobMatch_def isCompany_def)

lemma variant_not_object:
  assumes "\<not> isObject v"
  shows "isCompanyItem v = Inr False" "isProjectItem v = Inr False"
    "isSkillGroupItem v = Inr False" "isEducationItem v = Inr False"
    "isProfileSectionItem v = Inr False" "isAccomplishmentItem v = Inr False"
  using assms
  by (simp_all add: isCompanyItem_def isProjectItem_def isSkillGroupItem_def
      isEducationItem_def isProfileSectionItem_def isAccomplishmentItem_def
      variant_guard_not_object)

lemma isContentItem_not_object: "\<not> isObject v \<Longrightarrow> isContentItem v = Inr False"
  by (simp add: isContentItem_False variant_not_object)

lemma entity_guards_not_object:
  "\<not> isObject v \<Longrightarrow> list_all (\<lambda>g. g v = Inr False) entity_guards"
  by (simp add: entity_guards_def entity_not_object variant_not_object isContentItem_not_object)

lemma array_includes_string: "array_includes lits v \<Longrightarrow> typeof v = ''string''"
  by (cases v) simp_all

lemma string_not_string:
  assumes "typeof v \<noteq> ''string''"
  shows "isISODateString other v = Inr False" "isNonEmptyString v = Inr False"
    "isValidUrl v = Inr False" "isValidEmail v = Inr False" "isQueueStatus v = Inr False"
    "isQueueItemType v = Inr False" "isQueueSource v = Inr False" "isAIProvider v = Inr False"
    "isContentItemType v = Inr False" "isContentItemVisibility v = Inr False"
  using assms array_includes_string [of _ v]
  by (auto simp add: isISODateString_def isNonEmptyString_def isValidUrl_def isValidEmail_def
      isQueueStatus_def isQueueItemType_def isQueueSource_def isAIProvider_def
      isContentItemType_def isContentItemVisibility_def)

lemma string_guards_not_string:
  "typeof v \<noteq> ''string'' \<Longrightarrow> list_all (\<lambda>g. g v = Inr False) (string_guards other)"
  by (simp add: string_guards_def string_not_string)

text \<open>
  Claim C8, as stated: every exported guard returns a boolean on every value, \<^verbatim>\<open>null\<close>
  and \<^verbatim>\<open>undefined\<close> included. The guards \<^verbatim>\<open>isApiSuccess\<close>, \<^verbatim>\<open>isApiError\<close> and
  \<^verbatim>\<open>hasErrorCode\<close> of \<^verbatim>\<open>guards.ts\<close> read a property of their argument with no test before
  it: on \<^verbatim>\<open>null\<close>, on \<^verbatim>\<open>undefined\<close>, and on an object without \<^verbatim>\<open>error\<close> for the last,
  the read throws a TypeError.
\<close>

theorem typed_envelope_guards_throw:
  "isApiSuccess JNull = Inl TypeError \<and> isApiError JUndefined = Inl TypeError \<and>
   hasErrorCode (JObj []) ''NOT_FOUND'' = Inl TypeError"
  by (simp add: isApiSuccess_def isApiError_def hasErrorCode_def get_prop_def)

text \<open>
  Claim C8, amended. Every exported guard whose parameter has the type \<^verbatim>\<open>unknown\<close>, and
  \<^verbatim>\<open>isQueueStatus\<close> and \<^verbatim>\<open>isQueueItemType\<close>, returns a boolean on every value and throws
  on none. An entity guard returns false on every value that is not an object (a
  primitive, \<^verbatim>\<open>null\<close>, \<^verbatim>\<open>undefined\<close>, an array, a function); a guard of strings returns
  false on every value that is not a string; \<^verbatim>\<open>isApiResponse\<close> returns false on every
  value that is not a non-null object. The guards \<^verbatim>\<open>isApiSuccess\<close> and \<^verbatim>\<open>isApiError\<close>,
  whose parameter is an already typed response, return a boolean on every value but
  \<^verbatim>\<open>null\<close> and \<^verbatim>\<open>undefined\<close>, and \<^verbatim>\<open>hasErrorCode\<close> when moreover the \<^verbatim>\<open>error\<close> property
  is neither.
\<close>

theorem unknown_guards_return:
  "(\<forall>g \<in> set (string_guards other @ other_guards @ entity_guards). \<exists>b. g v = Inr b) \<and>
   (\<not> isObject v \<longrightarrow> (\<forall>g \<in> set entity_guards. g v = Inr False)) \<and>
   (typeof v \<noteq> ''string'' \<longrightarrow> (\<forall>g \<in> set (string_guards other). g v = Inr False)) \<and>
   (\<not> nonnull_object v \<longrightarrow> isApiResponse v = Inr False) \<and>
   (v \<noteq> JNull \<and> v \<noteq> JUndefined \<longrightarrow>
      (\<exists>b. isApiSuccess v = Inr b) \<and> (\<exists>b. isApiError v = Inr b)) \<and>
   (v \<noteq> JNull \<and> v \<noteq> JUndefined \<and> read_prop v ''error'' \<noteq> JNull \<and>
    read_prop v ''error'' \<noteq> JUndefined \<longrightarrow> (\<exists>b. hasErrorCode v code = Inr b))"
proof (intro conjI impI)
  show "\<forall>g \<in> set (string_guards other @ other_guards @ entity_guards). \<exists>b. g v = Inr b"
    using string_guards_return [of v other] other_guards_return [of v]
      entity_guards_return [of v]
    by (simp add: list_all_iff ball_Un)
  show "\<forall>g \<in> set entity_guards. g v = Inr False" if "\<not> isObject v"
    using entity_guards_not_object [OF that] by (simp add: list_all_iff)
  show "\<forall>g \<in> set (string_guards other). g v = Inr False" if "typeof v \<noteq> ''string''"
    using string_guards_not_string [OF that, of other] by (simp add: list_all_iff)
  show "isApiResponse v = Inr False" if "\<not> nonnull_object v"
    using that by (rule isApiResponse_not_object)
  show "\<exists>b. isApiSuccess v = Inr b" "\<exists>b. isApiError v = Inr b"
    if "v \<noteq> JNull \<and> v \<noteq> JUndefined"
    using that by (simp_all add: isApiSuccess_def isApiError_def get_prop_def)
  show "\<exists>b. hasErrorCode v code = Inr b"
    if "v \<noteq> JNull \<and> v \<noteq> JUndefined \<and> read_prop v ''error'' \<noteq> JNull \<and>
        read_prop v ''error'' \<noteq> JUndefined"
    using that by (simp add: hasErrorCode_def get_prop_def)
qed

theorem unknown_guards_return_witness:
  "isQueueItem JNull = Inr False \<and> isContentItem (JNum NaN) = Inr False \<and>
   isJobMatch (JArr []) = Inr False \<and> isValidUrl JUndefined = Inr False \<and>
   isISODateString (\<lambda>s. None) (JObj []) = Inr False \<and> isApiResponse JNull = Inr False \<and>
   isApiSuccess (JStr ''x'') = Inr False"
proof -
  have e: "isQueueItem \<in> set entity_guards" "isContentItem \<in> set entity_guards"
    "isJobMatch \<in> set entity_guards"
    by (simp_all add: entity_guards_def)
  have s: "isValidUrl \<in> set (string_guards (\<lambda>s. None))"
    "isISODateString (\<lambda>s. None) \<in> set (string_guards (\<lambda>s. None))"
    by (simp_all add: string_guards_def)
  have o: "\<not> isObject JNull" "\<not> isObject (JNum NaN)" "\<not> isObject (JArr [])"
    "typeof JUndefined \<noteq> ''string''" "typeof (JObj []) \<noteq> ''string''" "\<not> nonnull_object JNull"
    by (simp_all add: isObject_def nonnull_object_def)
  note t = unknown_guards_return [where other = "\<lambda>s. None"]
  have "isQueueItem JNull = Inr False"
    using t [of JNull] e(1) o(1) by blast
  moreover have "isContentItem (JNum NaN) = Inr False"
    using t [of "JNum NaN"] e(2) o(2) by blast
  moreover have "isJobMatch (JArr []) = Inr False"
    using t [of "JArr []"] e(3) o(3) by blast
  moreover have "isValidUrl JUndefined = Inr False"
    using t [of JUndefined] s(1) o(4) by blast
  moreover have "isISODateString (\<lambda>s. None) (JObj []) = Inr False"
    using t [of "JObj []"] s(2) o(5) by blast
  moreover have "isApiResponse JNull = Inr False"
    using t [of JNull] o(6) by blast
  moreover have "isApiSuccess (JStr ''x'') = Inr False"
    by (simp add: isApiSuccess_def get_prop_def)
  ultimately show ?thesis
    by simp
qed

section \<open>Further examples of the specification\<close>

text \<open>
  \<^verbatim>\<open>isValidUrl("https://example.com")\<close> is true; \<^verbatim>\<open>isValidUrl("ftp://example.com")\<close> and
  \<^verbatim>\<open>isValidUrl("not a url")\<close> are false.
\<close>

theorem isValidUrl_examples:
  "isValidUrl (JStr ''https://example.com'') = Inr True \<and>
   isValidUrl (JStr ''ftp://example.com'') = Inr False \<and>
   isValidUrl (JStr ''not a url'') = Inr False"
  by (simp add: isValidUrl_def urlPattern_def starts_with_def dot_plus_def line_terminator_def)

text \<open>
  The empty array is a string array, vacuously, and is not a non-empty array.
\<close>

theorem empty_array_examples:
  "isStringArray (JArr []) \<and> isNonEmptyArray (JArr []) = Inr False"
  by (simp add: isStringArray_def isNonEmptyArray_def)

text \<open>
  A queue item of type \<^verbatim>\<open>job\<close> and status \<^verbatim>\<open>pending\<close> with a valid \<^verbatim>\<open>url\<close>,
  \<^verbatim>\<open>company_name\<close> and \<^verbatim>\<open>source\<close>, numeric retry fields and two date-like timestamps is
  accepted; the same item with the status \<^verbatim>\<open>archived\<close> is rejected.
\<close>

theorem isQueueItem_examples:
  "isQueueItem (JObj sample_queue_item) = Inr True \<and>
   isQueueItem (JObj (AList.update ''status'' (JStr ''archived'') sample_queue_item)) = Inr False"
  by (simp add: isQueueItem_def eval_defs)

end
